theory Spec2Isabelle
  imports Main "HOL-Library.Word"
begin

unbundle bit_operations_syntax

section \<open>Platform types and constants\<close>

type_synonym HRESULT = "32 word"
type_synonym DWORD = "32 word"
type_synonym HANDLE = "64 word"
type_synonym PVOID = "64 word"

definition S_OK :: HRESULT where "S_OK = 0"
definition E_HANDLE :: HRESULT where "E_HANDLE = 0x80070006"
definition E_INVALIDARG :: HRESULT where "E_INVALIDARG = 0x80070057"
definition E_NO_TOKEN :: HRESULT where "E_NO_TOKEN = 0x800703F0"
definition E_SERVICE_DOES_NOT_EXIST :: HRESULT where "E_SERVICE_DOES_NOT_EXIST = 0x80070424"

definition INVALID_HANDLE_VALUE :: HANDLE where "INVALID_HANDLE_VALUE = - 1"
definition nullptr :: "64 word" where "nullptr = 0"

definition SECURITY_MANDATORY_SYSTEM_RID :: DWORD where "SECURITY_MANDATORY_SYSTEM_RID = 0x4000"
definition ABOVE_NORMAL_PRIORITY_CLASS :: DWORD where "ABOVE_NORMAL_PRIORITY_CLASS = 0x8000"
definition NORMAL_PRIORITY_CLASS :: DWORD where "NORMAL_PRIORITY_CLASS = 0x20"
definition SW_SHOWDEFAULT :: DWORD where "SW_SHOWDEFAULT = 10"
definition MAXIMUM_ALLOWED :: DWORD where "MAXIMUM_ALLOWED = 0x02000000"
definition SE_PRIVILEGE_ENABLED :: DWORD where "SE_PRIVILEGE_ENABLED = 2"
definition CREATE_SUSPENDED :: DWORD where "CREATE_SUSPENDED = 0x4"
definition CREATE_NEW_CONSOLE :: DWORD where "CREATE_NEW_CONSOLE = 0x10"
definition CREATE_UNICODE_ENVIRONMENT :: DWORD where "CREATE_UNICODE_ENVIRONMENT = 0x400"
definition STARTF_USESHOWWINDOW :: DWORD where "STARTF_USESHOWWINDOW = 1"
definition SE_DEBUG_NAME :: string where "SE_DEBUG_NAME = ''SeDebugPrivilege''"

datatype TOKEN_TYPE = TokenPrimary | TokenImpersonation

datatype TOKEN_INFORMATION_CLASS = TokenUser | TokenSessionId | TokenIntegrityLevel

datatype SECURITY_IMPERSONATION_LEVEL =
  SecurityAnonymous | SecurityIdentification | SecurityImpersonation | SecurityDelegation

record STARTUPINFOW =
  lpDesktop :: string
  dwFlags :: DWORD
  wShowWindow :: "16 word"

record PROCESS_INFORMATION =
  hProcess :: HANDLE
  hThread :: HANDLE

record LUID_AND_ATTRIBUTES =
  Luid :: "64 word"
  Attributes :: DWORD

section \<open>The token and process primitive layer\<close>

text \<open>
  Modelled from the spec: the token/process primitive layer of Mile.Windows.h
  (the \<open>Mile...\<close> functions), which the sources call but do not contain. The spec
  lists it as an external collaborator offering open-own-token, open-process-token,
  duplicate-token, enable-privilege(s), set-session-id, set-integrity-label,
  get/set-thread-impersonation-token, create-process-as-user, set-priority-class,
  resume-thread and close-handle, each returning a status that is zero on success.

  The layer is a small deterministic machine. Its state holds the table of open
  handles, the token objects (session, type, integrity label), the impersonation
  token of the calling thread, the processes created, the live memory blocks and the
  list of calls made so far with their results. Every call whose status the pipeline
  checks consults a fault plan: the k-th such call of a run fails with status
  \<open>w_fault k\<close> when that is non-zero, and then has no effect and writes nothing
  through its out-parameters. Calls whose status the pipeline ignores (closing,
  freeing, priority, resume, wait, and clearing the thread token) are not subject to
  the plan.
\<close>

record token =
  tk_session :: DWORD
  tk_type :: TOKEN_TYPE
  tk_label :: DWORD

record process =
  p_session :: DWORD
  p_label :: DWORD
  p_cmdline :: string
  p_cwd :: "string option"
  p_flags :: DWORD
  p_desktop :: string
  p_priority :: DWORD
  p_suspended :: bool

text \<open>
  Kernel objects are named by an identifier; a handle refers to an object, and several
  handles may refer to the same one. A thread object stands for the primary thread of
  the process with the same identifier.
\<close>

type_synonym objid = "64 word"

datatype kobject = TokenObj objid | ProcessObj objid | ThreadObj objid

datatype block = EnvironmentBlock objid | WideString string

datatype api =
    OpenCurrentProcessToken
  | DuplicateToken HANDLE SECURITY_IMPERSONATION_LEVEL TOKEN_TYPE
  | GetPrivilegeValue string
  | AdjustTokenPrivilegesSimple HANDLE "LUID_AND_ATTRIBUTES list"
  | SetCurrentThreadToken HANDLE
  | OpenCurrentThreadToken
  | GetTokenInformation HANDLE TOKEN_INFORMATION_CLASS
  | OpenLsassProcessToken
  | AdjustTokenAllPrivileges HANDLE DWORD
  | OpenServiceProcessToken string
  | SetTokenInformation HANDLE TOKEN_INFORMATION_CLASS DWORD
  | SetTokenMandatoryLabel HANDLE DWORD
  | CreateEnvironmentBlock HANDLE
  | ExpandEnvironmentStringsWithMemory string
  | CreateProcessAsUser HANDLE PVOID DWORD PVOID "string option"
  | SetPriorityClass HANDLE DWORD
  | ResumeThread HANDLE
  | WaitForSingleObject HANDLE DWORD
  | CloseHandle HANDLE
  | FreeMemory PVOID
  | DestroyEnvironmentBlock PVOID
  | CoInitializeEx

text \<open>An event is a call, its status, and the handles or pointers it handed out.\<close>

type_synonym event = "api \<times> HRESULT \<times> HANDLE list"

record world =
  w_fault :: "nat \<Rightarrow> HRESULT"
  w_calls :: nat
  w_next :: "64 word"
  w_handles :: "(HANDLE \<times> kobject) list"
  w_tokens :: "(objid \<times> token) list"
  w_thread :: "objid option"
  w_procs :: "(objid \<times> process) list"
  w_heap :: "(PVOID \<times> block) list"
  w_trace :: "event list"

text \<open>The identifiers of the token objects that exist before the pipeline runs.\<close>

definition CALLER_TOKEN :: objid where "CALLER_TOKEN = 1"
definition LSASS_TOKEN :: objid where "LSASS_TOKEN = 2"
definition TRUSTEDINSTALLER_TOKEN :: objid where "TRUSTEDINSTALLER_TOKEN = 3"

definition record_call :: "api \<Rightarrow> HRESULT \<Rightarrow> HANDLE list \<Rightarrow> world \<Rightarrow> world" where
  "record_call a r outs w = w\<lparr>w_trace := w_trace w @ [(a, r, outs)]\<rparr>"

definition checked_call ::
  "api \<Rightarrow> 'a \<Rightarrow> (world \<Rightarrow> HRESULT \<times> 'a \<times> HANDLE list \<times> world) \<Rightarrow> world \<Rightarrow> HRESULT \<times> 'a \<times> world" where
  "checked_call a old run w =
     (let f = w_fault w (w_calls w); w1 = w\<lparr>w_calls := w_calls w + 1\<rparr> in
      if f \<noteq> S_OK then (f, old, record_call a f [] w1)
      else case run w1 of (r, new, outs, w2) \<Rightarrow> (r, new, record_call a r outs w2))"

definition unchecked_call :: "api \<Rightarrow> (world \<Rightarrow> HRESULT \<times> world) \<Rightarrow> world \<Rightarrow> world" where
  "unchecked_call a run w = (case run w of (r, w1) \<Rightarrow> record_call a r [] w1)"

definition token_of :: "world \<Rightarrow> HANDLE \<Rightarrow> (objid \<times> token) option" where
  "token_of w h =
     (case map_of (w_handles w) h of
        Some (TokenObj i) \<Rightarrow>
          (case map_of (w_tokens w) i of Some t \<Rightarrow> Some (i, t) | None \<Rightarrow> None)
      | _ \<Rightarrow> None)"

definition process_of :: "world \<Rightarrow> HANDLE \<Rightarrow> objid option" where
  "process_of w h =
     (case map_of (w_handles w) h of
        Some (ProcessObj i) \<Rightarrow>
          (case map_of (w_procs w) i of Some _ \<Rightarrow> Some i | None \<Rightarrow> None)
      | _ \<Rightarrow> None)"

definition thread_of :: "world \<Rightarrow> HANDLE \<Rightarrow> objid option" where
  "thread_of w h =
     (case map_of (w_handles w) h of
        Some (ThreadObj i) \<Rightarrow>
          (case map_of (w_procs w) i of Some _ \<Rightarrow> Some i | None \<Rightarrow> None)
      | _ \<Rightarrow> None)"

definition modify :: "objid \<Rightarrow> ('a \<Rightarrow> 'a) \<Rightarrow> (objid \<times> 'a) list \<Rightarrow> (objid \<times> 'a) list" where
  "modify i f tab = map (\<lambda>e. if fst e = i then (fst e, f (snd e)) else e) tab"

definition fresh :: "world \<Rightarrow> 64 word \<times> world" where
  "fresh w = (w_next w, w\<lparr>w_next := w_next w + 4\<rparr>)"

definition open_handle :: "kobject \<Rightarrow> world \<Rightarrow> HANDLE \<times> world" where
  "open_handle obj w =
     (case fresh w of (h, w1) \<Rightarrow> (h, w1\<lparr>w_handles := w_handles w1 @ [(h, obj)]\<rparr>))"

definition alloc_block :: "block \<Rightarrow> world \<Rightarrow> PVOID \<times> world" where
  "alloc_block b w =
     (case fresh w of (p, w1) \<Rightarrow> (p, w1\<lparr>w_heap := w_heap w1 @ [(p, b)]\<rparr>))"

definition open_token :: "objid \<Rightarrow> HANDLE \<Rightarrow> world \<Rightarrow> HRESULT \<times> HANDLE \<times> HANDLE list \<times> world" where
  "open_token i old w =
     (case map_of (w_tokens w) i of
        None \<Rightarrow> (E_HANDLE, old, [], w)
      | Some _ \<Rightarrow> (case open_handle (TokenObj i) w of (h, w1) \<Rightarrow> (S_OK, h, [h], w1)))"

definition MileOpenCurrentProcessToken ::
  "DWORD \<Rightarrow> HANDLE \<Rightarrow> world \<Rightarrow> HRESULT \<times> HANDLE \<times> world" where
  "MileOpenCurrentProcessToken DesiredAccess TokenHandle w =
     checked_call OpenCurrentProcessToken TokenHandle (open_token CALLER_TOKEN TokenHandle) w"

definition MileOpenLsassProcessToken ::
  "DWORD \<Rightarrow> HANDLE \<Rightarrow> world \<Rightarrow> HRESULT \<times> HANDLE \<times> world" where
  "MileOpenLsassProcessToken DesiredAccess TokenHandle w =
     checked_call OpenLsassProcessToken TokenHandle (open_token LSASS_TOKEN TokenHandle) w"

definition MileOpenServiceProcessToken ::
  "string \<Rightarrow> DWORD \<Rightarrow> HANDLE \<Rightarrow> world \<Rightarrow> HRESULT \<times> HANDLE \<times> world" where
  "MileOpenServiceProcessToken ServiceName DesiredAccess TokenHandle w =
     checked_call (OpenServiceProcessToken ServiceName) TokenHandle
       (\<lambda>w1. if ServiceName = ''TrustedInstaller''
              then open_token TRUSTEDINSTALLER_TOKEN TokenHandle w1
              else (E_SERVICE_DOES_NOT_EXIST, TokenHandle, [], w1)) w"

definition MileOpenCurrentThreadToken ::
  "DWORD \<Rightarrow> bool \<Rightarrow> HANDLE \<Rightarrow> world \<Rightarrow> HRESULT \<times> HANDLE \<times> world" where
  "MileOpenCurrentThreadToken DesiredAccess OpenAsSelf TokenHandle w =
     checked_call OpenCurrentThreadToken TokenHandle
       (\<lambda>w1. case w_thread w1 of
                None \<Rightarrow> (E_NO_TOKEN, TokenHandle, [], w1)
              | Some i \<Rightarrow> open_token i TokenHandle w1) w"

definition MileDuplicateToken ::
  "HANDLE \<Rightarrow> DWORD \<Rightarrow> SECURITY_IMPERSONATION_LEVEL \<Rightarrow> TOKEN_TYPE \<Rightarrow> HANDLE \<Rightarrow> world
     \<Rightarrow> HRESULT \<times> HANDLE \<times> world" where
  "MileDuplicateToken ExistingTokenHandle DesiredAccess ImpersonationLevel TokenType NewTokenHandle w =
     checked_call (DuplicateToken ExistingTokenHandle ImpersonationLevel TokenType) NewTokenHandle
       (\<lambda>w1. case token_of w1 ExistingTokenHandle of
                None \<Rightarrow> (E_HANDLE, NewTokenHandle, [], w1)
              | Some (i, t) \<Rightarrow>
                  (case fresh w1 of
                     (j, w2) \<Rightarrow>
                       (case open_handle (TokenObj j)
                               (w2\<lparr>w_tokens := w_tokens w2 @ [(j, t\<lparr>tk_type := TokenType\<rparr>)]\<rparr>) of
                          (h, w3) \<Rightarrow> (S_OK, h, [h], w3)))) w"

definition MileGetPrivilegeValue :: "string \<Rightarrow> 64 word \<Rightarrow> world \<Rightarrow> HRESULT \<times> 64 word \<times> world" where
  "MileGetPrivilegeValue Name OutputLuid w =
     checked_call (GetPrivilegeValue Name) OutputLuid
       (\<lambda>w1. if Name = SE_DEBUG_NAME then (S_OK, 20, [], w1)
              else (E_INVALIDARG, OutputLuid, [], w1)) w"

definition on_token :: "HANDLE \<Rightarrow> (token \<Rightarrow> token) \<Rightarrow> world \<Rightarrow> HRESULT \<times> unit \<times> HANDLE list \<times> world" where
  "on_token h f w =
     (case token_of w h of
        None \<Rightarrow> (E_HANDLE, (), [], w)
      | Some (i, t) \<Rightarrow> (S_OK, (), [], w\<lparr>w_tokens := modify i f (w_tokens w)\<rparr>))"

definition MileAdjustTokenPrivilegesSimple ::
  "HANDLE \<Rightarrow> LUID_AND_ATTRIBUTES list \<Rightarrow> world \<Rightarrow> HRESULT \<times> world" where
  "MileAdjustTokenPrivilegesSimple TokenHandle Privileges w =
     (case checked_call (AdjustTokenPrivilegesSimple TokenHandle Privileges) ()
             (on_token TokenHandle (\<lambda>t. t)) w of
        (r, _, w1) \<Rightarrow> (r, w1))"

definition MileAdjustTokenAllPrivileges :: "HANDLE \<Rightarrow> DWORD \<Rightarrow> world \<Rightarrow> HRESULT \<times> world" where
  "MileAdjustTokenAllPrivileges TokenHandle Attrs w =
     (case checked_call (AdjustTokenAllPrivileges TokenHandle Attrs) ()
             (on_token TokenHandle (\<lambda>t. t)) w of
        (r, _, w1) \<Rightarrow> (r, w1))"

text \<open>Of the information classes of a token, only the session identifier is modelled.\<close>

definition MileSetTokenInformation ::
  "HANDLE \<Rightarrow> TOKEN_INFORMATION_CLASS \<Rightarrow> DWORD \<Rightarrow> world \<Rightarrow> HRESULT \<times> world" where
  "MileSetTokenInformation TokenHandle TokenInformationClass TokenInformation w =
     (case checked_call (SetTokenInformation TokenHandle TokenInformationClass TokenInformation) ()
             (\<lambda>w1. if TokenInformationClass = TokenSessionId
                    then on_token TokenHandle (\<lambda>t. t\<lparr>tk_session := TokenInformation\<rparr>) w1
                    else (E_INVALIDARG, (), [], w1)) w of
        (r, _, w1) \<Rightarrow> (r, w1))"

definition MileSetTokenMandatoryLabel :: "HANDLE \<Rightarrow> DWORD \<Rightarrow> world \<Rightarrow> HRESULT \<times> world" where
  "MileSetTokenMandatoryLabel TokenHandle MandatoryLabelRid w =
     (case checked_call (SetTokenMandatoryLabel TokenHandle MandatoryLabelRid) ()
             (on_token TokenHandle (\<lambda>t. t\<lparr>tk_label := MandatoryLabelRid\<rparr>)) w of
        (r, _, w1) \<Rightarrow> (r, w1))"

definition MileGetTokenInformation ::
  "HANDLE \<Rightarrow> TOKEN_INFORMATION_CLASS \<Rightarrow> DWORD \<Rightarrow> world \<Rightarrow> HRESULT \<times> DWORD \<times> world" where
  "MileGetTokenInformation TokenHandle TokenInformationClass TokenInformation w =
     checked_call (GetTokenInformation TokenHandle TokenInformationClass) TokenInformation
       (\<lambda>w1. case token_of w1 TokenHandle of
                None \<Rightarrow> (E_HANDLE, TokenInformation, [], w1)
              | Some (i, t) \<Rightarrow>
                  if TokenInformationClass = TokenSessionId
                  then (S_OK, tk_session t, [], w1)
                  else (E_INVALIDARG, TokenInformation, [], w1)) w"

text \<open>
  Installing a token on the thread is a checked call; clearing it (the null token) is
  the call the cleanup handler makes without looking at the status, and always takes
  effect.
\<close>

definition MileSetCurrentThreadToken :: "HANDLE \<Rightarrow> world \<Rightarrow> HRESULT \<times> world" where
  "MileSetCurrentThreadToken TokenHandle w =
     (if TokenHandle = nullptr
      then (S_OK, unchecked_call (SetCurrentThreadToken TokenHandle)
                    (\<lambda>w1. (S_OK, w1\<lparr>w_thread := None\<rparr>)) w)
      else case checked_call (SetCurrentThreadToken TokenHandle) ()
                  (\<lambda>w1. case token_of w1 TokenHandle of
                           None \<Rightarrow> (E_HANDLE, (), [], w1)
                         | Some (i, t) \<Rightarrow> (S_OK, (), [], w1\<lparr>w_thread := Some i\<rparr>)) w of
             (r, _, w1) \<Rightarrow> (r, w1))"

definition MileCreateEnvironmentBlock ::
  "PVOID \<Rightarrow> HANDLE \<Rightarrow> bool \<Rightarrow> world \<Rightarrow> HRESULT \<times> PVOID \<times> world" where
  "MileCreateEnvironmentBlock Environment TokenHandle Inherit w =
     checked_call (CreateEnvironmentBlock TokenHandle) Environment
       (\<lambda>w1. case token_of w1 TokenHandle of
                None \<Rightarrow> (E_HANDLE, Environment, [], w1)
              | Some (i, t) \<Rightarrow> (case alloc_block (EnvironmentBlock i) w1 of
                                 (p, w2) \<Rightarrow> (S_OK, p, [p], w2))) w"

definition MileExpandEnvironmentStringsWithMemory ::
  "string \<Rightarrow> PVOID \<Rightarrow> world \<Rightarrow> HRESULT \<times> PVOID \<times> world" where
  "MileExpandEnvironmentStringsWithMemory Source Destination w =
     checked_call (ExpandEnvironmentStringsWithMemory Source) Destination
       (\<lambda>w1. case alloc_block (WideString Source) w1 of
                (p, w2) \<Rightarrow> (S_OK, p, [p], w2)) w"

definition MileCreateProcessAsUser ::
  "HANDLE \<Rightarrow> PVOID \<Rightarrow> DWORD \<Rightarrow> PVOID \<Rightarrow> string option \<Rightarrow> STARTUPINFOW \<Rightarrow> PROCESS_INFORMATION
     \<Rightarrow> world \<Rightarrow> HRESULT \<times> PROCESS_INFORMATION \<times> world" where
  "MileCreateProcessAsUser TokenHandle CommandLine CreationFlags Environment CurrentDirectory
       StartupInfo ProcessInformation w =
     checked_call
       (CreateProcessAsUser TokenHandle CommandLine CreationFlags Environment CurrentDirectory)
       ProcessInformation
       (\<lambda>w1. case (token_of w1 TokenHandle, map_of (w_heap w1) CommandLine) of
                (Some (i, t), Some (WideString s)) \<Rightarrow>
                  if tk_type t = TokenPrimary
                  then (let p = \<lparr>p_session = tk_session t,
                                  p_label = tk_label t,
                                  p_cmdline = s,
                                  p_cwd = CurrentDirectory,
                                  p_flags = CreationFlags,
                                  p_desktop = lpDesktop StartupInfo,
                                  p_priority = NORMAL_PRIORITY_CLASS,
                                  p_suspended = (CreationFlags AND CREATE_SUSPENDED \<noteq> 0)\<rparr>
                        in case fresh w1 of
                             (pid, w2) \<Rightarrow>
                               (case open_handle (ProcessObj pid)
                                       (w2\<lparr>w_procs := w_procs w2 @ [(pid, p)]\<rparr>) of
                                  (hp, w3) \<Rightarrow>
                                    (case open_handle (ThreadObj pid) w3 of
                                       (ht, w4) \<Rightarrow>
                                         (S_OK, \<lparr>hProcess = hp, hThread = ht\<rparr>, [hp, ht], w4))))
                  else (E_INVALIDARG, ProcessInformation, [], w1)
              | _ \<Rightarrow> (E_INVALIDARG, ProcessInformation, [], w1)) w"

definition MileSetPriorityClass :: "HANDLE \<Rightarrow> DWORD \<Rightarrow> world \<Rightarrow> world" where
  "MileSetPriorityClass ProcessHandle PriorityClass w =
     unchecked_call (SetPriorityClass ProcessHandle PriorityClass)
       (\<lambda>w1. case process_of w1 ProcessHandle of
                None \<Rightarrow> (E_HANDLE, w1)
              | Some i \<Rightarrow>
                  (S_OK, w1\<lparr>w_procs := modify i (\<lambda>p. p\<lparr>p_priority := PriorityClass\<rparr>)
                                              (w_procs w1)\<rparr>)) w"

definition MileResumeThread :: "HANDLE \<Rightarrow> world \<Rightarrow> world" where
  "MileResumeThread ThreadHandle w =
     unchecked_call (ResumeThread ThreadHandle)
       (\<lambda>w1. case thread_of w1 ThreadHandle of
                None \<Rightarrow> (E_HANDLE, w1)
              | Some i \<Rightarrow>
                  (S_OK, w1\<lparr>w_procs := modify i (\<lambda>p. p\<lparr>p_suspended := False\<rparr>)
                                              (w_procs w1)\<rparr>)) w"

definition MileWaitForSingleObject :: "HANDLE \<Rightarrow> DWORD \<Rightarrow> bool \<Rightarrow> world \<Rightarrow> world" where
  "MileWaitForSingleObject Handle Milliseconds Alertable w =
     unchecked_call (WaitForSingleObject Handle Milliseconds)
       (\<lambda>w1. case map_of (w_handles w1) Handle of
                None \<Rightarrow> (E_HANDLE, w1)
              | Some _ \<Rightarrow> (S_OK, w1)) w"

definition MileCloseHandle :: "HANDLE \<Rightarrow> world \<Rightarrow> world" where
  "MileCloseHandle hObject w =
     unchecked_call (CloseHandle hObject)
       (\<lambda>w1. case map_of (w_handles w1) hObject of
                None \<Rightarrow> (E_HANDLE, w1)
              | Some _ \<Rightarrow>
                  (S_OK, w1\<lparr>w_handles := filter (\<lambda>e. fst e \<noteq> hObject) (w_handles w1)\<rparr>)) w"

definition free_block :: "PVOID \<Rightarrow> world \<Rightarrow> HRESULT \<times> world" where
  "free_block p w =
     (case map_of (w_heap w) p of
        None \<Rightarrow> (E_INVALIDARG, w)
      | Some _ \<Rightarrow> (S_OK, w\<lparr>w_heap := filter (\<lambda>e. fst e \<noteq> p) (w_heap w)\<rparr>))"

definition MileFreeMemory :: "PVOID \<Rightarrow> world \<Rightarrow> world" where
  "MileFreeMemory Block w = unchecked_call (FreeMemory Block) (free_block Block) w"

definition MileDestroyEnvironmentBlock :: "PVOID \<Rightarrow> world \<Rightarrow> world" where
  "MileDestroyEnvironmentBlock Environment w =
     unchecked_call (DestroyEnvironmentBlock Environment) (free_block Environment) w"

text \<open>
  The machine as the pipeline finds it: no handle open, no thread token, nothing
  allocated, and the three token objects of the caller's process, of lsass and of the
  TrustedInstaller service, each with its own session.
\<close>

definition boot :: "(nat \<Rightarrow> HRESULT) \<Rightarrow> DWORD \<Rightarrow> DWORD \<Rightarrow> DWORD \<Rightarrow> world" where
  "boot \<phi> caller_session lsass_session service_session =
     \<lparr>w_fault = \<phi>, w_calls = 0, w_next = 4, w_handles = [],
      w_tokens =
        [(CALLER_TOKEN, \<lparr>tk_session = caller_session, tk_type = TokenPrimary, tk_label = 0x3000\<rparr>),
         (LSASS_TOKEN, \<lparr>tk_session = lsass_session, tk_type = TokenPrimary, tk_label = 0x4000\<rparr>),
         (TRUSTEDINSTALLER_TOKEN,
            \<lparr>tk_session = service_session, tk_type = TokenPrimary, tk_label = 0x4000\<rparr>)],
      w_thread = None, w_procs = [], w_heap = [], w_trace = []\<rparr>"

section \<open>The scope-exit handler\<close>

text \<open>
  \<open>Mile::ScopeExitEventHandler\<close>: a flag and a handler; the destructor runs the
  handler unless \<open>Cancel\<close> was called. The handler of the pipeline captures its local
  variables by reference, so it is a function of their values at scope exit.
\<close>

record 'h ScopeExitEventHandler =
  m_Canceled :: bool
  m_EventHandler :: 'h

definition ScopeExitEventHandler_ctor :: "'h \<Rightarrow> 'h ScopeExitEventHandler" where
  "ScopeExitEventHandler_ctor EventHandler =
     \<lparr>m_Canceled = False, m_EventHandler = EventHandler\<rparr>"

definition ScopeExitEventHandler_dtor ::
  "('l \<Rightarrow> 's \<Rightarrow> 's) ScopeExitEventHandler \<Rightarrow> 'l \<Rightarrow> 's \<Rightarrow> 's" where
  "ScopeExitEventHandler_dtor this l s =
     (if \<not> m_Canceled this then m_EventHandler this l s else s)"

definition Cancel :: "'h ScopeExitEventHandler \<Rightarrow> 'h ScopeExitEventHandler" where
  "Cancel this = this\<lparr>m_Canceled := True\<rparr>"

section \<open>NSudoCreateProcess\<close>

record locals =
  hr :: HRESULT
  SessionID :: DWORD
  CurrentProcessToken :: HANDLE
  DuplicatedCurrentProcessToken :: HANDLE
  OriginalLsassProcessToken :: HANDLE
  SystemToken :: HANDLE
  hToken :: HANDLE
  OriginalToken :: HANDLE
  ProcessInfo :: PROCESS_INFORMATION
  lpEnvironment :: PVOID
  ExpandedString :: PVOID

text \<open>Statements that act on a state, executed one after the other.\<close>

definition statements :: "('s \<Rightarrow> 's) list \<Rightarrow> 's \<Rightarrow> 's" where
  "statements fs s = foldl (\<lambda>s f. f s) s fs"

definition Handler_lambda :: "locals \<Rightarrow> world \<Rightarrow> world" where
  "Handler_lambda L =
     statements
       [(\<lambda>w. if CurrentProcessToken L \<noteq> INVALID_HANDLE_VALUE
             then MileCloseHandle (CurrentProcessToken L) w else w),
        (\<lambda>w. if DuplicatedCurrentProcessToken L \<noteq> INVALID_HANDLE_VALUE
             then MileCloseHandle (DuplicatedCurrentProcessToken L) w else w),
        (\<lambda>w. if OriginalLsassProcessToken L \<noteq> INVALID_HANDLE_VALUE
             then MileCloseHandle (OriginalLsassProcessToken L) w else w),
        (\<lambda>w. if SystemToken L \<noteq> INVALID_HANDLE_VALUE
             then MileCloseHandle (SystemToken L) w else w),
        (\<lambda>w. if hToken L \<noteq> INVALID_HANDLE_VALUE
             then MileCloseHandle (hToken L) w else w),
        (\<lambda>w. if OriginalToken L \<noteq> INVALID_HANDLE_VALUE
             then MileCloseHandle (OriginalToken L) w else w),
        (\<lambda>w. snd (MileSetCurrentThreadToken nullptr w))]"

definition WinSta0_Default :: string where
  "WinSta0_Default = ''WinSta0'' @ [CHR 0x5C] @ ''Default''"

text \<open>
  The statements of the function between the construction of \<open>Handler\<close> and the
  return: the value returned, the local variables as they are at the return, and the
  machine at that point. Every \<open>return hr\<close> of the source is one early exit here.
  The three variables the source declares before the last stages (\<open>ProcessInfo\<close>,
  \<open>lpEnvironment\<close>, \<open>ExpandedString\<close>) are held with the others from the start, with
  the values the source initialises them to; a braced block is a list of statements on
  the variables and the machine.
\<close>

definition NSudoCreateProcess_body ::
  "string \<Rightarrow> string option \<Rightarrow> world \<Rightarrow> HRESULT \<times> locals \<times> world" where
  "NSudoCreateProcess_body CommandLine CurrentDirectory w0 =
    (let MandatoryLabelRid = SECURITY_MANDATORY_SYSTEM_RID;
         ProcessPriority = ABOVE_NORMAL_PRIORITY_CLASS;
         ShowWindowMode = SW_SHOWDEFAULT;
         L = \<lparr>hr = S_OK, SessionID = - 1,
              CurrentProcessToken = INVALID_HANDLE_VALUE,
              DuplicatedCurrentProcessToken = INVALID_HANDLE_VALUE,
              OriginalLsassProcessToken = INVALID_HANDLE_VALUE,
              SystemToken = INVALID_HANDLE_VALUE,
              hToken = INVALID_HANDLE_VALUE,
              OriginalToken = INVALID_HANDLE_VALUE,
              ProcessInfo = \<lparr>hProcess = 0, hThread = 0\<rparr>,
              lpEnvironment = nullptr,
              ExpandedString = nullptr\<rparr>;
         (r, h, w) = MileOpenCurrentProcessToken MAXIMUM_ALLOWED (CurrentProcessToken L) w0;
         L = L\<lparr>hr := r, CurrentProcessToken := h\<rparr>
     in if hr L \<noteq> S_OK then (hr L, L, w) else
     let (r, h, w) = MileDuplicateToken (CurrentProcessToken L) MAXIMUM_ALLOWED
                       SecurityImpersonation TokenImpersonation
                       (DuplicatedCurrentProcessToken L) w;
         L = L\<lparr>hr := r, DuplicatedCurrentProcessToken := h\<rparr>
     in if hr L \<noteq> S_OK then (hr L, L, w) else
     let RawPrivilege = \<lparr>Luid = 0, Attributes = 0\<rparr>;
         (r, luid, w) = MileGetPrivilegeValue SE_DEBUG_NAME (Luid RawPrivilege) w;
         RawPrivilege = RawPrivilege\<lparr>Luid := luid\<rparr>;
         L = L\<lparr>hr := r\<rparr>
     in if hr L \<noteq> S_OK then (hr L, L, w) else
     let RawPrivilege = RawPrivilege\<lparr>Attributes := SE_PRIVILEGE_ENABLED\<rparr>;
         (r, w) = MileAdjustTokenPrivilegesSimple (DuplicatedCurrentProcessToken L)
                    [RawPrivilege] w;
         L = L\<lparr>hr := r\<rparr>
     in if hr L \<noteq> S_OK then (hr L, L, w) else
     let (r, w) = MileSetCurrentThreadToken (DuplicatedCurrentProcessToken L) w;
         L = L\<lparr>hr := r\<rparr>
     in if hr L \<noteq> S_OK then (hr L, L, w) else
     let (r, h, w) = MileOpenCurrentThreadToken MAXIMUM_ALLOWED False (CurrentProcessToken L) w;
         L = L\<lparr>hr := r, CurrentProcessToken := h\<rparr>
     in if hr L \<noteq> S_OK then (hr L, L, w) else
     let (r, sid, w) = MileGetTokenInformation (CurrentProcessToken L) TokenSessionId
                         (SessionID L) w;
         L = L\<lparr>hr := r, SessionID := sid\<rparr>
     in if hr L \<noteq> S_OK then (hr L, L, w) else
     let (r, h, w) = MileOpenLsassProcessToken MAXIMUM_ALLOWED (OriginalLsassProcessToken L) w;
         L = L\<lparr>hr := r, OriginalLsassProcessToken := h\<rparr>
     in if hr L \<noteq> S_OK then (hr L, L, w) else
     let (r, h, w) = MileDuplicateToken (OriginalLsassProcessToken L) MAXIMUM_ALLOWED
                       SecurityImpersonation TokenImpersonation (SystemToken L) w;
         L = L\<lparr>hr := r, SystemToken := h\<rparr>
     in if hr L \<noteq> S_OK then (hr L, L, w) else
     let (r, w) = MileAdjustTokenAllPrivileges (SystemToken L) SE_PRIVILEGE_ENABLED w;
         L = L\<lparr>hr := r\<rparr>
     in if hr L \<noteq> S_OK then (hr L, L, w) else
     let (r, w) = MileSetCurrentThreadToken (SystemToken L) w;
         L = L\<lparr>hr := r\<rparr>
     in if hr L \<noteq> S_OK then (hr L, L, w) else
     let (r, h, w) = MileOpenServiceProcessToken ''TrustedInstaller'' MAXIMUM_ALLOWED
                       (OriginalToken L) w;
         L = L\<lparr>hr := r, OriginalToken := h\<rparr>
     in if hr L \<noteq> S_OK then (hr L, L, w) else
     let (r, h, w) = MileDuplicateToken (OriginalToken L) MAXIMUM_ALLOWED
                       SecurityIdentification TokenPrimary (hToken L) w;
         L = L\<lparr>hr := r, hToken := h\<rparr>
     in if hr L \<noteq> S_OK then (hr L, L, w) else
     let (r, w) = MileSetTokenInformation (hToken L) TokenSessionId (SessionID L) w;
         L = L\<lparr>hr := r\<rparr>
     in if hr L \<noteq> S_OK then (hr L, L, w) else
     let (r, w) = MileAdjustTokenAllPrivileges (hToken L) SE_PRIVILEGE_ENABLED w;
         L = L\<lparr>hr := r\<rparr>
     in if hr L \<noteq> S_OK then (hr L, L, w) else
     let (r, w) = MileSetTokenMandatoryLabel (hToken L) MandatoryLabelRid w;
         L = L\<lparr>hr := r\<rparr>
     in if hr L \<noteq> S_OK then (hr L, L, w) else
     let dwCreationFlags = CREATE_SUSPENDED OR CREATE_UNICODE_ENVIRONMENT OR CREATE_NEW_CONSOLE;
         StartupInfo = \<lparr>lpDesktop = WinSta0_Default,
                        dwFlags = 0 OR STARTF_USESHOWWINDOW,
                        wShowWindow = ucast ShowWindowMode\<rparr>;
         (r, p, w) = MileCreateEnvironmentBlock (lpEnvironment L) (hToken L) True w;
         L = L\<lparr>hr := r, lpEnvironment := p\<rparr>;
         (L, w) =
           (if hr L = S_OK then
              statements
                [(\<lambda>(L, w).
                    case MileExpandEnvironmentStringsWithMemory CommandLine (ExpandedString L) w of
                      (r, p, w) \<Rightarrow> (L\<lparr>hr := r, ExpandedString := p\<rparr>, w)),
                 (\<lambda>(L, w).
                    if hr L = S_OK then
                      statements
                        [(\<lambda>(L, w).
                            case MileCreateProcessAsUser (hToken L) (ExpandedString L)
                                   dwCreationFlags (lpEnvironment L) CurrentDirectory
                                   StartupInfo (ProcessInfo L) w of
                              (r, pi, w) \<Rightarrow> (L\<lparr>hr := r, ProcessInfo := pi\<rparr>, w)),
                         (\<lambda>(L, w).
                            if hr L = S_OK then
                              (L, statements
                                    [MileSetPriorityClass (hProcess (ProcessInfo L)) ProcessPriority,
                                     MileResumeThread (hThread (ProcessInfo L)),
                                     MileWaitForSingleObject (hProcess (ProcessInfo L)) 0 False,
                                     MileCloseHandle (hProcess (ProcessInfo L)),
                                     MileCloseHandle (hThread (ProcessInfo L))] w)
                            else (L, w)),
                         (\<lambda>(L, w). (L, MileFreeMemory (ExpandedString L) w))] (L, w)
                    else (L, w)),
                 (\<lambda>(L, w). (L, MileDestroyEnvironmentBlock (lpEnvironment L) w))] (L, w)
            else (L, w))
     in (S_OK, L, w))"

text \<open>
  The function: \<open>Handler\<close> is constructed first and destroyed at scope exit, after the
  return value has been computed; \<open>Cancel\<close> is never called on it.
\<close>

definition NSudoCreateProcess :: "string \<Rightarrow> string option \<Rightarrow> world \<Rightarrow> HRESULT \<times> world" where
  "NSudoCreateProcess CommandLine CurrentDirectory w0 =
     (let Handler = ScopeExitEventHandler_ctor Handler_lambda in
      case NSudoCreateProcess_body CommandLine CurrentDirectory w0 of
        (r, L, w) \<Rightarrow> (r, ScopeExitEventHandler_dtor Handler L w))"

section \<open>CNSudoResourceManagement and NSudoMain\<close>

text \<open>
  The two C library functions that \<open>Initialize\<close> uses, on a wide string held as the
  list of its characters, an implicit terminator after the last one. \<open>wcslen\<close> counts
  the characters before the first NUL. \<open>wcsrchr\<close> gives the position of the last
  occurrence of a character before the terminator, the position of the terminator when
  the character sought is NUL, and \<open>None\<close> for the null pointer the C function returns
  when there is no occurrence.
\<close>

definition wcslen :: "string \<Rightarrow> nat" where
  "wcslen s = length (takeWhile (\<lambda>c. c \<noteq> CHR 0x00) s)"

fun wcsrchr_from :: "string \<Rightarrow> char \<Rightarrow> nat \<Rightarrow> nat option \<Rightarrow> nat option" where
  "wcsrchr_from [] c i found = (if c = CHR 0x00 then Some i else found)"
| "wcsrchr_from (x # xs) c i found =
     (if x = CHR 0x00 then (if c = CHR 0x00 then Some i else found)
      else wcsrchr_from xs c (i + 1) (if x = c then Some i else found))"

definition wcsrchr :: "string \<Rightarrow> char \<Rightarrow> nat option" where
  "wcsrchr s c = wcsrchr_from s c 0 None"

record CNSudoResourceManagement =
  m_IsInitialized :: bool
  m_Instance :: "64 word"
  m_ExePath :: string
  m_AppPath :: string
  m_StringTranslations :: "(string \<times> string) list"
  m_ShortCutList :: "(string \<times> string) list"

definition CNSudoResourceManagement_ctor :: CNSudoResourceManagement where
  "CNSudoResourceManagement_ctor =
     \<lparr>m_IsInitialized = False, m_Instance = nullptr, m_ExePath = [], m_AppPath = [],
      m_StringTranslations = [], m_ShortCutList = []\<rparr>"

text \<open>
  \<open>Initialize\<close>. \<open>GetModuleHandleW\<close> and \<open>M2GetCurrentProcessModulePath\<close> (declared
  in the sources, not defined there) are the values those two calls return; the
  latter's documented value on failure is the empty string. The statement
  \<open>wcsrchr(&m_AppPath[0], L'\\')[0] = L'\0'\<close> writes through the pointer \<open>wcsrchr\<close>
  returns without testing it: when the path has no backslash the pointer is null, the
  write faults and the function does not return, which is the result \<open>None\<close>.
\<close>

definition Initialize ::
  "64 word \<Rightarrow> string \<Rightarrow> CNSudoResourceManagement \<Rightarrow> CNSudoResourceManagement option" where
  "Initialize GetModuleHandleW M2GetCurrentProcessModulePath this =
     (if \<not> m_IsInitialized this then
        (let this = this\<lparr>m_Instance := GetModuleHandleW\<rparr>;
             this = this\<lparr>m_ExePath := M2GetCurrentProcessModulePath\<rparr>;
             this = this\<lparr>m_AppPath := m_ExePath this\<rparr>
         in case wcsrchr (m_AppPath this) (CHR 0x5C) of
              None \<Rightarrow> None
            | Some i \<Rightarrow>
                (let this = this\<lparr>m_AppPath := (m_AppPath this)[i := CHR 0x00]\<rparr>;
                     this = this\<lparr>m_AppPath := take (wcslen (m_AppPath this)) (m_AppPath this)\<rparr>
                 in Some (this\<lparr>m_IsInitialized := True\<rparr>)))
      else Some this)"

text \<open>
  \<open>NSudoMain\<close>. \<open>M2SpiltCommandLineEx\<close> is declared in the sources but not defined
  there: the splitter is a parameter, applied to the command line of the process. The
  global \<open>g_ResourceManagement\<close> is passed in and returned. The result is \<open>None\<close> when
  the function does not return, and otherwise the exit code, the global and the machine.
\<close>

definition NSudoMain ::
  "(string \<Rightarrow> string \<times> string) \<Rightarrow> string \<Rightarrow> 64 word \<Rightarrow> string \<Rightarrow> CNSudoResourceManagement
     \<Rightarrow> world \<Rightarrow> (int \<times> CNSudoResourceManagement \<times> world) option" where
  "NSudoMain M2SpiltCommandLineEx GetCommandLineW GetModuleHandleW M2GetCurrentProcessModulePath
       g_ResourceManagement w0 =
     (let w = unchecked_call CoInitializeEx (\<lambda>w. (S_OK, w)) w0 in
      case Initialize GetModuleHandleW M2GetCurrentProcessModulePath g_ResourceManagement of
        None \<Rightarrow> None
      | Some g \<Rightarrow>
          (let (ApplicationName, UnresolvedCommandLine) = M2SpiltCommandLineEx GetCommandLineW
           in if UnresolvedCommandLine = [] then Some (0, g, w)
              else if UnresolvedCommandLine = [] then Some (- 1, g, w)
              else case NSudoCreateProcess UnresolvedCommandLine (Some (m_AppPath g)) w of
                     (r, w1) \<Rightarrow> Some (0, g, w1)))"

section \<open>M2::CObject\<close>

text \<open>
  The smart object of M2WindowsHelpers.h. \<open>TObjectDefiner\<close> supplies the invalid
  value and the release function; the release function acts on a state \<open>'s\<close>.
\<close>

record ('o, 's) TObjectDefiner =
  GetInvalidValue :: 'o
  Close :: "'o \<Rightarrow> 's \<Rightarrow> 's"

record 'o CObject =
  m_Object :: 'o

definition CObject_ctor :: "'o \<Rightarrow> 'o CObject" where
  "CObject_ctor Object = \<lparr>m_Object = Object\<rparr>"

definition IsInvalid :: "('o, 's) TObjectDefiner \<Rightarrow> 'o CObject \<Rightarrow> bool" where
  "IsInvalid D this = (m_Object this = GetInvalidValue D)"

definition CObject_Close :: "('o, 's) TObjectDefiner \<Rightarrow> 'o CObject \<Rightarrow> 's \<Rightarrow> 'o CObject \<times> 's" where
  "CObject_Close D this s =
     (if \<not> IsInvalid D this
      then (this\<lparr>m_Object := GetInvalidValue D\<rparr>, Close D (m_Object this) s)
      else (this, s))"

definition CObject_assign ::
  "('o, 's) TObjectDefiner \<Rightarrow> 'o CObject \<Rightarrow> 'o \<Rightarrow> 's \<Rightarrow> 'o \<times> 'o CObject \<times> 's" where
  "CObject_assign D this Object s =
     (if Object \<noteq> m_Object this
      then case CObject_Close D this s of
             (this1, s1) \<Rightarrow> (Object, this1\<lparr>m_Object := Object\<rparr>, s1)
      else (m_Object this, this, s))"

definition Detach :: "('o, 's) TObjectDefiner \<Rightarrow> 'o CObject \<Rightarrow> 'o \<times> 'o CObject" where
  "Detach D this = (m_Object this, this\<lparr>m_Object := GetInvalidValue D\<rparr>)"

definition CObject_dtor :: "('o, 's) TObjectDefiner \<Rightarrow> 'o CObject \<Rightarrow> 's \<Rightarrow> 's" where
  "CObject_dtor D this s = snd (CObject_Close D this s)"

definition CHandleDefiner :: "(HANDLE, world) TObjectDefiner" where
  "CHandleDefiner = \<lparr>GetInvalidValue = INVALID_HANDLE_VALUE, Close = MileCloseHandle\<rparr>"

text \<open>
  A definer whose release function only notes the value released, to count releases,
  and the member functions that release or change what the object owns, applied in
  sequence and followed by the destructor.
\<close>

definition LogDefiner :: "'o \<Rightarrow> ('o, 'o list) TObjectDefiner" where
  "LogDefiner invalid = \<lparr>GetInvalidValue = invalid, Close = (\<lambda>v released. released @ [v])\<rparr>"

datatype 'o member_call = CallClose | CallAssign 'o | CallDetach

fun call_member ::
  "('o, 's) TObjectDefiner \<Rightarrow> 'o member_call \<Rightarrow> 'o CObject \<times> 's \<Rightarrow> 'o CObject \<times> 's" where
  "call_member D CallClose (this, s) = CObject_Close D this s"
| "call_member D (CallAssign v) (this, s) = snd (CObject_assign D this v s)"
| "call_member D CallDetach (this, s) = (snd (Detach D this), s)"

fun lifetime ::
  "('o, 's) TObjectDefiner \<Rightarrow> 'o member_call list \<Rightarrow> 'o CObject \<times> 's \<Rightarrow> 's" where
  "lifetime D [] (this, s) = CObject_dtor D this s"
| "lifetime D (c # cs) (this, s) = lifetime D cs (call_member D c (this, s))"

fun assigned :: "'o member_call list \<Rightarrow> 'o list" where
  "assigned [] = []"
| "assigned (CallAssign v # cs) = v # assigned cs"
| "assigned (_ # cs) = assigned cs"

section \<open>Observations on a run\<close>

text \<open>
  What the claims speak about, read off the list of calls of a run: the handles handed
  out, the handles closed, the calls of a given kind.
\<close>

definition status :: "event \<Rightarrow> HRESULT" where
  "status e = fst (snd e)"

fun hands_out_handles :: "api \<Rightarrow> bool" where
  "hands_out_handles OpenCurrentProcessToken = True"
| "hands_out_handles (DuplicateToken _ _ _) = True"
| "hands_out_handles OpenCurrentThreadToken = True"
| "hands_out_handles OpenLsassProcessToken = True"
| "hands_out_handles (OpenServiceProcessToken _) = True"
| "hands_out_handles (CreateProcessAsUser _ _ _ _ _) = True"
| "hands_out_handles _ = False"

definition opened_handles :: "event list \<Rightarrow> HANDLE list" where
  "opened_handles T = concat (map (\<lambda>e. snd (snd e)) (filter (\<lambda>e. hands_out_handles (fst e)) T))"

fun closed_handle :: "api \<Rightarrow> HANDLE list" where
  "closed_handle (CloseHandle h) = [h]"
| "closed_handle _ = []"

definition closed_handles :: "event list \<Rightarrow> HANDLE list" where
  "closed_handles T = concat (map (\<lambda>e. closed_handle (fst e)) T)"

fun is_close :: "api \<Rightarrow> bool" where
  "is_close (CloseHandle _) = True"
| "is_close _ = False"

text \<open>The calls of the cleanup: closing, freeing, and clearing the thread token.\<close>

fun is_cleanup :: "api \<Rightarrow> bool" where
  "is_cleanup (CloseHandle _) = True"
| "is_cleanup (FreeMemory _) = True"
| "is_cleanup (DestroyEnvironmentBlock _) = True"
| "is_cleanup (SetCurrentThreadToken h) = (h = nullptr)"
| "is_cleanup _ = False"

text \<open>The calls after process creation that act on the new process.\<close>

fun is_launch :: "api \<Rightarrow> bool" where
  "is_launch (SetPriorityClass _ _) = True"
| "is_launch (ResumeThread _) = True"
| "is_launch (WaitForSingleObject _ _) = True"
| "is_launch _ = False"

definition is_stage :: "api \<Rightarrow> bool" where
  "is_stage a = (\<not> is_cleanup a \<and> \<not> is_launch a)"

fun is_priority_or_resume :: "api \<Rightarrow> bool" where
  "is_priority_or_resume (SetPriorityClass _ _) = True"
| "is_priority_or_resume (ResumeThread _) = True"
| "is_priority_or_resume _ = False"

fun is_set_above_normal :: "api \<Rightarrow> bool" where
  "is_set_above_normal (SetPriorityClass _ c) = (c = ABOVE_NORMAL_PRIORITY_CLASS)"
| "is_set_above_normal _ = False"

fun is_resume :: "api \<Rightarrow> bool" where
  "is_resume (ResumeThread _) = True"
| "is_resume _ = False"

fun is_memory_call :: "api \<Rightarrow> bool" where
  "is_memory_call (CreateEnvironmentBlock _) = True"
| "is_memory_call (ExpandEnvironmentStringsWithMemory _) = True"
| "is_memory_call (FreeMemory _) = True"
| "is_memory_call (DestroyEnvironmentBlock _) = True"
| "is_memory_call _ = False"

fun session_write :: "api \<Rightarrow> (HANDLE \<times> DWORD) list" where
  "session_write (SetTokenInformation h TokenSessionId v) = [(h, v)]"
| "session_write _ = []"

definition session_writes :: "event list \<Rightarrow> (HANDLE \<times> DWORD) list" where
  "session_writes T = concat (map (\<lambda>e. session_write (fst e)) T)"

text \<open>No call satisfying \<open>Q\<close> is made before the first call satisfying \<open>P\<close>.\<close>

fun not_before :: "(api \<Rightarrow> bool) \<Rightarrow> (api \<Rightarrow> bool) \<Rightarrow> event list \<Rightarrow> bool" where
  "not_before P Q [] = True"
| "not_before P Q (e # es) = (if P (fst e) then True else (\<not> Q (fst e) \<and> not_before P Q es))"

text \<open>Every call that reports a failure is followed by cleanup calls only.\<close>

fun short_circuits :: "event list \<Rightarrow> bool" where
  "short_circuits [] = True"
| "short_circuits (e # es) =
     ((if status e = S_OK then True else list_all (\<lambda>e'. is_cleanup (fst e')) es) \<and> short_circuits es)"

definition handle_variables :: "locals \<Rightarrow> HANDLE list" where
  "handle_variables L =
     [CurrentProcessToken L, DuplicatedCurrentProcessToken L, OriginalLsassProcessToken L,
      SystemToken L, hToken L, OriginalToken L]"

text \<open>
  The pipeline makes nineteen checked calls, numbered from 0 in the order of the source.
  \<open>first_failure\<close> is the number of the first one the fault plan fails, and 19 when the
  plan fails none.
\<close>

definition first_failure :: "(nat \<Rightarrow> HRESULT) \<Rightarrow> nat" where
  "first_failure \<phi> = length (takeWhile (\<lambda>k. \<phi> k = S_OK) [0..<19])"

text \<open>
  The nineteen checked calls of a run started by \<open>boot\<close>, with their arguments and with
  the handles or pointers each hands out when it succeeds.
\<close>

definition stage_calls :: "DWORD \<Rightarrow> string \<Rightarrow> string option \<Rightarrow> (api \<times> HANDLE list) list" where
  "stage_calls cs cmd cwd =
     [(OpenCurrentProcessToken, [4]),
      (DuplicateToken 4 SecurityImpersonation TokenImpersonation, [12]),
      (GetPrivilegeValue SE_DEBUG_NAME, []),
      (AdjustTokenPrivilegesSimple 12 [\<lparr>Luid = 20, Attributes = SE_PRIVILEGE_ENABLED\<rparr>], []),
      (SetCurrentThreadToken 12, []),
      (OpenCurrentThreadToken, [16]),
      (GetTokenInformation 16 TokenSessionId, []),
      (OpenLsassProcessToken, [20]),
      (DuplicateToken 20 SecurityImpersonation TokenImpersonation, [28]),
      (AdjustTokenAllPrivileges 28 SE_PRIVILEGE_ENABLED, []),
      (SetCurrentThreadToken 28, []),
      (OpenServiceProcessToken ''TrustedInstaller'', [32]),
      (DuplicateToken 32 SecurityIdentification TokenPrimary, [40]),
      (SetTokenInformation 40 TokenSessionId cs, []),
      (AdjustTokenAllPrivileges 40 SE_PRIVILEGE_ENABLED, []),
      (SetTokenMandatoryLabel 40 SECURITY_MANDATORY_SYSTEM_RID, []),
      (CreateEnvironmentBlock 40, [44]),
      (ExpandEnvironmentStringsWithMemory cmd, [48]),
      (CreateProcessAsUser 40 48
         (CREATE_SUSPENDED OR CREATE_UNICODE_ENVIRONMENT OR CREATE_NEW_CONSOLE) 44 cwd, [56, 60])]"

definition launch_calls :: "api list" where
  "launch_calls =
     [SetPriorityClass 56 ABOVE_NORMAL_PRIORITY_CLASS, ResumeThread 60,
      WaitForSingleObject 56 0, CloseHandle 56, CloseHandle 60]"

text \<open>The handles the six handle variables hold when \<open>n\<close> checked calls have succeeded.\<close>

definition held :: "nat \<Rightarrow> HANDLE list" where
  "held n =
     (if 6 \<le> n then [16] else if 1 \<le> n then [4] else []) @
     (if 2 \<le> n then [12] else []) @
     (if 8 \<le> n then [20] else []) @
     (if 9 \<le> n then [28] else []) @
     (if 13 \<le> n then [40] else []) @
     (if 12 \<le> n then [32] else [])"

definition succeeded :: "api \<Rightarrow> event" where
  "succeeded a = (a, S_OK, [])"

text \<open>
  The calls of the run in which the first \<open>n\<close> checked calls succeed and the next one,
  if there is one, fails with status \<open>r\<close>.
\<close>

definition run_trace :: "nat \<Rightarrow> HRESULT \<Rightarrow> DWORD \<Rightarrow> string \<Rightarrow> string option \<Rightarrow> event list" where
  "run_trace n r cs cmd cwd =
     map (\<lambda>c. (fst c, S_OK, snd c)) (take n (stage_calls cs cmd cwd)) @
     (if n < 19 then [(fst (stage_calls cs cmd cwd ! n), r, [])] else map succeeded launch_calls) @
     map succeeded
       ((if 18 \<le> n then [FreeMemory 48] else []) @
        (if 17 \<le> n then [DestroyEnvironmentBlock 44] else []) @
        map CloseHandle (held n) @
        [SetCurrentThreadToken nullptr])"

definition launched_process :: "DWORD \<Rightarrow> string \<Rightarrow> string option \<Rightarrow> process" where
  "launched_process cs cmd cwd =
     \<lparr>p_session = cs, p_label = SECURITY_MANDATORY_SYSTEM_RID, p_cmdline = cmd, p_cwd = cwd,
      p_flags = CREATE_SUSPENDED OR CREATE_UNICODE_ENVIRONMENT OR CREATE_NEW_CONSOLE,
      p_desktop = WinSta0_Default,
      p_priority = ABOVE_NORMAL_PRIORITY_CLASS, p_suspended = False\<rparr>"

text \<open>What is observed of a run: status, calls, open handles, live memory, thread token, processes.\<close>

type_synonym observation =
  "HRESULT \<times> event list \<times> (HANDLE \<times> kobject) list \<times> (PVOID \<times> block) list \<times>
   objid option \<times> (objid \<times> process) list"

definition observe :: "HRESULT \<times> world \<Rightarrow> observation" where
  "observe R = (case R of (r, w) \<Rightarrow> (r, w_trace w, w_handles w, w_heap w, w_thread w, w_procs w))"

definition run_outcome :: "nat \<Rightarrow> HRESULT \<Rightarrow> DWORD \<Rightarrow> string \<Rightarrow> string option \<Rightarrow> observation" where
  "run_outcome n r cs cmd cwd =
     (if n < 16 then r else S_OK,
      run_trace n r cs cmd cwd,
      if 6 \<le> n then [(4, TokenObj CALLER_TOKEN)] else [],
      [],
      None,
      if n = 19 then [(52, launched_process cs cmd cwd)] else [])"

section \<open>Running the primitive layer on an explicit machine\<close>

text \<open>
  Rewrite rules that execute one step of the primitive layer on a machine whose
  components are given. They keep the symbolic runs below small.
\<close>

lemma record_call_eval:
  "record_call a r outs
     \<lparr>w_fault = F, w_calls = C, w_next = N, w_handles = H, w_tokens = T,
       w_thread = TH, w_procs = P, w_heap = M, w_trace = TR\<rparr> =
     \<lparr>w_fault = F, w_calls = C, w_next = N, w_handles = H, w_tokens = T,
       w_thread = TH, w_procs = P, w_heap = M, w_trace = TR @ [(a, r, outs)]\<rparr>"
  by (simp add: record_call_def)

lemma checked_call_eval:
  "checked_call a old run
     \<lparr>w_fault = F, w_calls = C, w_next = N, w_handles = H, w_tokens = T,
       w_thread = TH, w_procs = P, w_heap = M, w_trace = TR\<rparr> =
   (if F C \<noteq> S_OK
    then (F C, old,
      \<lparr>w_fault = F, w_calls = C + 1, w_next = N, w_handles = H, w_tokens = T,
       w_thread = TH, w_procs = P, w_heap = M, w_trace = TR @ [(a, F C, [])]\<rparr>)
    else case run
      \<lparr>w_fault = F, w_calls = C + 1, w_next = N, w_handles = H, w_tokens = T,
       w_thread = TH, w_procs = P, w_heap = M, w_trace = TR\<rparr> of
           (r, new, outs, w2) \<Rightarrow> (r, new, record_call a r outs w2))"
  by (simp add: checked_call_def record_call_def Let_def)

lemma unchecked_call_eval:
  "unchecked_call a run w = (case run w of (r, w1) \<Rightarrow> record_call a r [] w1)"
  by (simp add: unchecked_call_def)

lemma open_handle_eval:
  "open_handle obj
     \<lparr>w_fault = F, w_calls = C, w_next = N, w_handles = H, w_tokens = T,
       w_thread = TH, w_procs = P, w_heap = M, w_trace = TR\<rparr> =
     (N, \<lparr>w_fault = F, w_calls = C, w_next = N + 4, w_handles = H @ [(N, obj)], w_tokens = T,
       w_thread = TH, w_procs = P, w_heap = M, w_trace = TR\<rparr>)"
  by (simp add: open_handle_def fresh_def)

lemma fresh_eval:
  "fresh
     \<lparr>w_fault = F, w_calls = C, w_next = N, w_handles = H, w_tokens = T,
       w_thread = TH, w_procs = P, w_heap = M, w_trace = TR\<rparr> =
     (N, \<lparr>w_fault = F, w_calls = C, w_next = N + 4, w_handles = H, w_tokens = T,
       w_thread = TH, w_procs = P, w_heap = M, w_trace = TR\<rparr>)"
  by (simp add: fresh_def)

lemma alloc_block_eval:
  "alloc_block b
     \<lparr>w_fault = F, w_calls = C, w_next = N, w_handles = H, w_tokens = T,
       w_thread = TH, w_procs = P, w_heap = M, w_trace = TR\<rparr> =
     (N, \<lparr>w_fault = F, w_calls = C, w_next = N + 4, w_handles = H, w_tokens = T,
       w_thread = TH, w_procs = P, w_heap = M @ [(N, b)], w_trace = TR\<rparr>)"
  by (simp add: alloc_block_def fresh_def)

lemma token_of_eval:
  "token_of
     \<lparr>w_fault = F, w_calls = C, w_next = N, w_handles = H, w_tokens = T,
       w_thread = TH, w_procs = P, w_heap = M, w_trace = TR\<rparr> h =
     (case map_of H h of
        Some (TokenObj i) \<Rightarrow> (case map_of T i of Some t \<Rightarrow> Some (i, t) | None \<Rightarrow> None)
      | _ \<Rightarrow> None)"
  by (simp add: token_of_def split: option.splits kobject.splits)

lemma process_of_eval:
  "process_of
     \<lparr>w_fault = F, w_calls = C, w_next = N, w_handles = H, w_tokens = T,
       w_thread = TH, w_procs = P, w_heap = M, w_trace = TR\<rparr> h =
     (case map_of H h of
        Some (ProcessObj i) \<Rightarrow> (case map_of P i of Some _ \<Rightarrow> Some i | None \<Rightarrow> None)
      | _ \<Rightarrow> None)"
  by (simp add: process_of_def split: option.splits kobject.splits)

lemma thread_of_eval:
  "thread_of
     \<lparr>w_fault = F, w_calls = C, w_next = N, w_handles = H, w_tokens = T,
       w_thread = TH, w_procs = P, w_heap = M, w_trace = TR\<rparr> h =
     (case map_of H h of
        Some (ThreadObj i) \<Rightarrow> (case map_of P i of Some _ \<Rightarrow> Some i | None \<Rightarrow> None)
      | _ \<Rightarrow> None)"
  by (simp add: thread_of_def split: option.splits kobject.splits)

lemma open_token_eval:
  "open_token i old
     \<lparr>w_fault = F, w_calls = C, w_next = N, w_handles = H, w_tokens = T,
       w_thread = TH, w_procs = P, w_heap = M, w_trace = TR\<rparr> =
     (case map_of T i of
        None \<Rightarrow> (E_HANDLE, old, [],
          \<lparr>w_fault = F, w_calls = C, w_next = N, w_handles = H, w_tokens = T,
       w_thread = TH, w_procs = P, w_heap = M, w_trace = TR\<rparr>)
      | Some _ \<Rightarrow> (S_OK, N, [N],
          \<lparr>w_fault = F, w_calls = C, w_next = N + 4, w_handles = H @ [(N, TokenObj i)], w_tokens = T,
       w_thread = TH, w_procs = P, w_heap = M, w_trace = TR\<rparr>))"
  by (simp add: open_token_def open_handle_def fresh_def split: option.splits)

lemma on_token_eval:
  "on_token h f
     \<lparr>w_fault = F, w_calls = C, w_next = N, w_handles = H, w_tokens = T,
       w_thread = TH, w_procs = P, w_heap = M, w_trace = TR\<rparr> =
     (case map_of H h of
        Some (TokenObj i) \<Rightarrow>
          (case map_of T i of
             Some t \<Rightarrow> (S_OK, (), [],
               \<lparr>w_fault = F, w_calls = C, w_next = N, w_handles = H, w_tokens = modify i f T,
       w_thread = TH, w_procs = P, w_heap = M, w_trace = TR\<rparr>)
           | None \<Rightarrow> (E_HANDLE, (), [],
               \<lparr>w_fault = F, w_calls = C, w_next = N, w_handles = H, w_tokens = T,
       w_thread = TH, w_procs = P, w_heap = M, w_trace = TR\<rparr>))
      | _ \<Rightarrow> (E_HANDLE, (), [],
               \<lparr>w_fault = F, w_calls = C, w_next = N, w_handles = H, w_tokens = T,
       w_thread = TH, w_procs = P, w_heap = M, w_trace = TR\<rparr>))"
  by (simp add: on_token_def token_of_def split: option.splits kobject.splits)

lemma free_block_eval:
  "free_block p
     \<lparr>w_fault = F, w_calls = C, w_next = N, w_handles = H, w_tokens = T,
       w_thread = TH, w_procs = P, w_heap = M, w_trace = TR\<rparr> =
     (case map_of M p of
        None \<Rightarrow> (E_INVALIDARG,
          \<lparr>w_fault = F, w_calls = C, w_next = N, w_handles = H, w_tokens = T,
       w_thread = TH, w_procs = P, w_heap = M, w_trace = TR\<rparr>)
      | Some _ \<Rightarrow> (S_OK,
          \<lparr>w_fault = F, w_calls = C, w_next = N, w_handles = H, w_tokens = T,
       w_thread = TH, w_procs = P, w_heap = filter (\<lambda>e. fst e \<noteq> p) M, w_trace = TR\<rparr>))"
  by (simp add: free_block_def split: option.splits)

lemma take_1_Cons: "take 1 (x # xs) = [x]"
  by simp

lemma nth_1_Cons: "(x # y # xs) ! 1 = y"
  by simp

lemmas machine_evals =
  take_1_Cons nth_1_Cons
  record_call_eval checked_call_eval unchecked_call_eval open_handle_eval fresh_eval
  alloc_block_eval token_of_eval process_of_eval thread_of_eval open_token_eval on_token_eval
  free_block_eval

lemmas Mile_defs =
  MileOpenCurrentProcessToken_def MileOpenLsassProcessToken_def MileOpenServiceProcessToken_def
  MileOpenCurrentThreadToken_def MileDuplicateToken_def MileGetPrivilegeValue_def
  MileAdjustTokenPrivilegesSimple_def MileAdjustTokenAllPrivileges_def
  MileSetTokenInformation_def MileSetTokenMandatoryLabel_def MileGetTokenInformation_def
  MileSetCurrentThreadToken_def MileCreateEnvironmentBlock_def
  MileExpandEnvironmentStringsWithMemory_def MileCreateProcessAsUser_def
  MileSetPriorityClass_def MileResumeThread_def MileWaitForSingleObject_def
  MileCloseHandle_def MileFreeMemory_def MileDestroyEnvironmentBlock_def
  CALLER_TOKEN_def LSASS_TOKEN_def TRUSTEDINSTALLER_TOKEN_def modify_def

lemmas constant_defs =
  S_OK_def E_HANDLE_def E_INVALIDARG_def E_NO_TOKEN_def E_SERVICE_DOES_NOT_EXIST_def
  INVALID_HANDLE_VALUE_def nullptr_def SECURITY_MANDATORY_SYSTEM_RID_def
  ABOVE_NORMAL_PRIORITY_CLASS_def NORMAL_PRIORITY_CLASS_def SW_SHOWDEFAULT_def
  MAXIMUM_ALLOWED_def SE_PRIVILEGE_ENABLED_def CREATE_SUSPENDED_def CREATE_NEW_CONSOLE_def
  CREATE_UNICODE_ENVIRONMENT_def STARTF_USESHOWWINDOW_def SE_DEBUG_NAME_def

lemmas pipeline_defs =
  NSudoCreateProcess_def NSudoCreateProcess_body_def boot_def Handler_lambda_def
  statements_def ScopeExitEventHandler_ctor_def ScopeExitEventHandler_dtor_def

lemmas outcome_defs =
  observe_def run_outcome_def run_trace_def stage_calls_def launch_calls_def held_def
  succeeded_def launched_process_def

section \<open>The twenty runs of the pipeline\<close>

text \<open>
  A run started by \<open>boot\<close> is determined by the first checked call that the fault plan
  fails. One lemma per case: the first \<open>n\<close> calls succeed and call \<open>n\<close> fails.
\<close>

lemma run_0:
  assumes
    "\<phi> 0 \<noteq> S_OK"
  shows "observe (NSudoCreateProcess cmd cwd (boot \<phi> cs ls ts)) =
         run_outcome 0 (\<phi> 0) cs cmd cwd"
  using assms
  by (simp add: pipeline_defs Mile_defs machine_evals outcome_defs constant_defs
        WinSta0_Default_def Let_def del: One_nat_def)

lemma run_1:
  assumes
    "\<phi> 0 = S_OK" "\<phi> 1 \<noteq> S_OK"
  shows "observe (NSudoCreateProcess cmd cwd (boot \<phi> cs ls ts)) =
         run_outcome 1 (\<phi> 1) cs cmd cwd"
  using assms
  by (simp add: pipeline_defs Mile_defs machine_evals outcome_defs constant_defs
        WinSta0_Default_def Let_def del: One_nat_def)

lemma run_2:
  assumes
    "\<phi> 0 = S_OK" "\<phi> 1 = S_OK" "\<phi> 2 \<noteq> S_OK"
  shows "observe (NSudoCreateProcess cmd cwd (boot \<phi> cs ls ts)) =
         run_outcome 2 (\<phi> 2) cs cmd cwd"
  using assms
  by (simp add: pipeline_defs Mile_defs machine_evals outcome_defs constant_defs
        WinSta0_Default_def Let_def del: One_nat_def)

lemma run_3:
  assumes
    "\<phi> 0 = S_OK" "\<phi> 1 = S_OK" "\<phi> 2 = S_OK" "\<phi> 3 \<noteq> S_OK"
  shows "observe (NSudoCreateProcess cmd cwd (boot \<phi> cs ls ts)) =
         run_outcome 3 (\<phi> 3) cs cmd cwd"
  using assms
  by (simp add: pipeline_defs Mile_defs machine_evals outcome_defs constant_defs
        WinSta0_Default_def Let_def del: One_nat_def)

lemma run_4:
  assumes
    "\<phi> 0 = S_OK" "\<phi> 1 = S_OK" "\<phi> 2 = S_OK" "\<phi> 3 = S_OK"
    "\<phi> 4 \<noteq> S_OK"
  shows "observe (NSudoCreateProcess cmd cwd (boot \<phi> cs ls ts)) =
         run_outcome 4 (\<phi> 4) cs cmd cwd"
  using assms
  by (simp add: pipeline_defs Mile_defs machine_evals outcome_defs constant_defs
        WinSta0_Default_def Let_def del: One_nat_def)

lemma run_5:
  assumes
    "\<phi> 0 = S_OK" "\<phi> 1 = S_OK" "\<phi> 2 = S_OK" "\<phi> 3 = S_OK"
    "\<phi> 4 = S_OK" "\<phi> 5 \<noteq> S_OK"
  shows "observe (NSudoCreateProcess cmd cwd (boot \<phi> cs ls ts)) =
         run_outcome 5 (\<phi> 5) cs cmd cwd"
  using assms
  by (simp add: pipeline_defs Mile_defs machine_evals outcome_defs constant_defs
        WinSta0_Default_def Let_def del: One_nat_def)

lemma run_6:
  assumes
    "\<phi> 0 = S_OK" "\<phi> 1 = S_OK" "\<phi> 2 = S_OK" "\<phi> 3 = S_OK"
    "\<phi> 4 = S_OK" "\<phi> 5 = S_OK" "\<phi> 6 \<noteq> S_OK"
  shows "observe (NSudoCreateProcess cmd cwd (boot \<phi> cs ls ts)) =
         run_outcome 6 (\<phi> 6) cs cmd cwd"
  using assms
  by (simp add: pipeline_defs Mile_defs machine_evals outcome_defs constant_defs
        WinSta0_Default_def Let_def del: One_nat_def)

lemma run_7:
  assumes
    "\<phi> 0 = S_OK" "\<phi> 1 = S_OK" "\<phi> 2 = S_OK" "\<phi> 3 = S_OK"
    "\<phi> 4 = S_OK" "\<phi> 5 = S_OK" "\<phi> 6 = S_OK" "\<phi> 7 \<noteq> S_OK"
  shows "observe (NSudoCreateProcess cmd cwd (boot \<phi> cs ls ts)) =
         run_outcome 7 (\<phi> 7) cs cmd cwd"
  using assms
  by (simp add: pipeline_defs Mile_defs machine_evals outcome_defs constant_defs
        WinSta0_Default_def Let_def del: One_nat_def)

lemma run_8:
  assumes
    "\<phi> 0 = S_OK" "\<phi> 1 = S_OK" "\<phi> 2 = S_OK" "\<phi> 3 = S_OK"
    "\<phi> 4 = S_OK" "\<phi> 5 = S_OK" "\<phi> 6 = S_OK" "\<phi> 7 = S_OK"
    "\<phi> 8 \<noteq> S_OK"
  shows "observe (NSudoCreateProcess cmd cwd (boot \<phi> cs ls ts)) =
         run_outcome 8 (\<phi> 8) cs cmd cwd"
  using assms
  by (simp add: pipeline_defs Mile_defs machine_evals outcome_defs constant_defs
        WinSta0_Default_def Let_def del: One_nat_def)

lemma run_9:
  assumes
    "\<phi> 0 = S_OK" "\<phi> 1 = S_OK" "\<phi> 2 = S_OK" "\<phi> 3 = S_OK"
    "\<phi> 4 = S_OK" "\<phi> 5 = S_OK" "\<phi> 6 = S_OK" "\<phi> 7 = S_OK"
    "\<phi> 8 = S_OK" "\<phi> 9 \<noteq> S_OK"
  shows "observe (NSudoCreateProcess cmd cwd (boot \<phi> cs ls ts)) =
         run_outcome 9 (\<phi> 9) cs cmd cwd"
  using assms
  by (simp add: pipeline_defs Mile_defs machine_evals outcome_defs constant_defs
        WinSta0_Default_def Let_def del: One_nat_def)

lemma run_10:
  assumes
    "\<phi> 0 = S_OK" "\<phi> 1 = S_OK" "\<phi> 2 = S_OK" "\<phi> 3 = S_OK"
    "\<phi> 4 = S_OK" "\<phi> 5 = S_OK" "\<phi> 6 = S_OK" "\<phi> 7 = S_OK"
    "\<phi> 8 = S_OK" "\<phi> 9 = S_OK" "\<phi> 10 \<noteq> S_OK"
  shows "observe (NSudoCreateProcess cmd cwd (boot \<phi> cs ls ts)) =
         run_outcome 10 (\<phi> 10) cs cmd cwd"
  using assms
  by (simp add: pipeline_defs Mile_defs machine_evals outcome_defs constant_defs
        WinSta0_Default_def Let_def del: One_nat_def)

lemma run_11:
  assumes
    "\<phi> 0 = S_OK" "\<phi> 1 = S_OK" "\<phi> 2 = S_OK" "\<phi> 3 = S_OK"
    "\<phi> 4 = S_OK" "\<phi> 5 = S_OK" "\<phi> 6 = S_OK" "\<phi> 7 = S_OK"
    "\<phi> 8 = S_OK" "\<phi> 9 = S_OK" "\<phi> 10 = S_OK" "\<phi> 11 \<noteq> S_OK"
  shows "observe (NSudoCreateProcess cmd cwd (boot \<phi> cs ls ts)) =
         run_outcome 11 (\<phi> 11) cs cmd cwd"
  using assms
  by (simp add: pipeline_defs Mile_defs machine_evals outcome_defs constant_defs
        WinSta0_Default_def Let_def del: One_nat_def)

lemma run_12:
  assumes
    "\<phi> 0 = S_OK" "\<phi> 1 = S_OK" "\<phi> 2 = S_OK" "\<phi> 3 = S_OK"
    "\<phi> 4 = S_OK" "\<phi> 5 = S_OK" "\<phi> 6 = S_OK" "\<phi> 7 = S_OK"
    "\<phi> 8 = S_OK" "\<phi> 9 = S_OK" "\<phi> 10 = S_OK" "\<phi> 11 = S_OK"
    "\<phi> 12 \<noteq> S_OK"
  shows "observe (NSudoCreateProcess cmd cwd (boot \<phi> cs ls ts)) =
         run_outcome 12 (\<phi> 12) cs cmd cwd"
  using assms
  by (simp add: pipeline_defs Mile_defs machine_evals outcome_defs constant_defs
        WinSta0_Default_def Let_def del: One_nat_def)

lemma run_13:
  assumes
    "\<phi> 0 = S_OK" "\<phi> 1 = S_OK" "\<phi> 2 = S_OK" "\<phi> 3 = S_OK"
    "\<phi> 4 = S_OK" "\<phi> 5 = S_OK" "\<phi> 6 = S_OK" "\<phi> 7 = S_OK"
    "\<phi> 8 = S_OK" "\<phi> 9 = S_OK" "\<phi> 10 = S_OK" "\<phi> 11 = S_OK"
    "\<phi> 12 = S_OK" "\<phi> 13 \<noteq> S_OK"
  shows "observe (NSudoCreateProcess cmd cwd (boot \<phi> cs ls ts)) =
         run_outcome 13 (\<phi> 13) cs cmd cwd"
  using assms
  by (simp add: pipeline_defs Mile_defs machine_evals outcome_defs constant_defs
        WinSta0_Default_def Let_def del: One_nat_def)

lemma run_14:
  assumes
    "\<phi> 0 = S_OK" "\<phi> 1 = S_OK" "\<phi> 2 = S_OK" "\<phi> 3 = S_OK"
    "\<phi> 4 = S_OK" "\<phi> 5 = S_OK" "\<phi> 6 = S_OK" "\<phi> 7 = S_OK"
    "\<phi> 8 = S_OK" "\<phi> 9 = S_OK" "\<phi> 10 = S_OK" "\<phi> 11 = S_OK"
    "\<phi> 12 = S_OK" "\<phi> 13 = S_OK" "\<phi> 14 \<noteq> S_OK"
  shows "observe (NSudoCreateProcess cmd cwd (boot \<phi> cs ls ts)) =
         run_outcome 14 (\<phi> 14) cs cmd cwd"
  using assms
  by (simp add: pipeline_defs Mile_defs machine_evals outcome_defs constant_defs
        WinSta0_Default_def Let_def del: One_nat_def)

lemma run_15:
  assumes
    "\<phi> 0 = S_OK" "\<phi> 1 = S_OK" "\<phi> 2 = S_OK" "\<phi> 3 = S_OK"
    "\<phi> 4 = S_OK" "\<phi> 5 = S_OK" "\<phi> 6 = S_OK" "\<phi> 7 = S_OK"
    "\<phi> 8 = S_OK" "\<phi> 9 = S_OK" "\<phi> 10 = S_OK" "\<phi> 11 = S_OK"
    "\<phi> 12 = S_OK" "\<phi> 13 = S_OK" "\<phi> 14 = S_OK" "\<phi> 15 \<noteq> S_OK"
  shows "observe (NSudoCreateProcess cmd cwd (boot \<phi> cs ls ts)) =
         run_outcome 15 (\<phi> 15) cs cmd cwd"
  using assms
  by (simp add: pipeline_defs Mile_defs machine_evals outcome_defs constant_defs
        WinSta0_Default_def Let_def del: One_nat_def)

lemma run_16:
  assumes
    "\<phi> 0 = S_OK" "\<phi> 1 = S_OK" "\<phi> 2 = S_OK" "\<phi> 3 = S_OK"
    "\<phi> 4 = S_OK" "\<phi> 5 = S_OK" "\<phi> 6 = S_OK" "\<phi> 7 = S_OK"
    "\<phi> 8 = S_OK" "\<phi> 9 = S_OK" "\<phi> 10 = S_OK" "\<phi> 11 = S_OK"
    "\<phi> 12 = S_OK" "\<phi> 13 = S_OK" "\<phi> 14 = S_OK" "\<phi> 15 = S_OK"
    "\<phi> 16 \<noteq> S_OK"
  shows "observe (NSudoCreateProcess cmd cwd (boot \<phi> cs ls ts)) =
         run_outcome 16 (\<phi> 16) cs cmd cwd"
  using assms
  by (simp add: pipeline_defs Mile_defs machine_evals outcome_defs constant_defs
        WinSta0_Default_def Let_def del: One_nat_def)

lemma run_17:
  assumes
    "\<phi> 0 = S_OK" "\<phi> 1 = S_OK" "\<phi> 2 = S_OK" "\<phi> 3 = S_OK"
    "\<phi> 4 = S_OK" "\<phi> 5 = S_OK" "\<phi> 6 = S_OK" "\<phi> 7 = S_OK"
    "\<phi> 8 = S_OK" "\<phi> 9 = S_OK" "\<phi> 10 = S_OK" "\<phi> 11 = S_OK"
    "\<phi> 12 = S_OK" "\<phi> 13 = S_OK" "\<phi> 14 = S_OK" "\<phi> 15 = S_OK"
    "\<phi> 16 = S_OK" "\<phi> 17 \<noteq> S_OK"
  shows "observe (NSudoCreateProcess cmd cwd (boot \<phi> cs ls ts)) =
         run_outcome 17 (\<phi> 17) cs cmd cwd"
  using assms
  by (simp add: pipeline_defs Mile_defs machine_evals outcome_defs constant_defs
        WinSta0_Default_def Let_def del: One_nat_def)

lemma run_18:
  assumes
    "\<phi> 0 = S_OK" "\<phi> 1 = S_OK" "\<phi> 2 = S_OK" "\<phi> 3 = S_OK"
    "\<phi> 4 = S_OK" "\<phi> 5 = S_OK" "\<phi> 6 = S_OK" "\<phi> 7 = S_OK"
    "\<phi> 8 = S_OK" "\<phi> 9 = S_OK" "\<phi> 10 = S_OK" "\<phi> 11 = S_OK"
    "\<phi> 12 = S_OK" "\<phi> 13 = S_OK" "\<phi> 14 = S_OK" "\<phi> 15 = S_OK"
    "\<phi> 16 = S_OK" "\<phi> 17 = S_OK" "\<phi> 18 \<noteq> S_OK"
  shows "observe (NSudoCreateProcess cmd cwd (boot \<phi> cs ls ts)) =
         run_outcome 18 (\<phi> 18) cs cmd cwd"
  using assms
  by (simp add: pipeline_defs Mile_defs machine_evals outcome_defs constant_defs
        WinSta0_Default_def Let_def del: One_nat_def)

lemma run_19:
  assumes
    "\<phi> 0 = S_OK" "\<phi> 1 = S_OK" "\<phi> 2 = S_OK" "\<phi> 3 = S_OK"
    "\<phi> 4 = S_OK" "\<phi> 5 = S_OK" "\<phi> 6 = S_OK" "\<phi> 7 = S_OK"
    "\<phi> 8 = S_OK" "\<phi> 9 = S_OK" "\<phi> 10 = S_OK" "\<phi> 11 = S_OK"
    "\<phi> 12 = S_OK" "\<phi> 13 = S_OK" "\<phi> 14 = S_OK" "\<phi> 15 = S_OK"
    "\<phi> 16 = S_OK" "\<phi> 17 = S_OK" "\<phi> 18 = S_OK"
  shows "observe (NSudoCreateProcess cmd cwd (boot \<phi> cs ls ts)) =
         run_outcome 19 (\<phi> 19) cs cmd cwd"
  using assms
  by (simp add: pipeline_defs Mile_defs machine_evals outcome_defs constant_defs
        WinSta0_Default_def Let_def del: One_nat_def)


section \<open>Every run is one of the twenty\<close>

lemma first_failure_le: "first_failure \<phi> \<le> 19"
proof -
  have "length (takeWhile (\<lambda>k. \<phi> k = S_OK) [0..<19]) \<le> length [0..<19]"
    by (rule length_takeWhile_le)
  then show ?thesis
    by (simp add: first_failure_def)
qed

lemma first_failure_succeeded: "k < first_failure \<phi> \<Longrightarrow> \<phi> k = S_OK"
proof -
  assume k: "k < first_failure \<phi>"
  let ?xs = "takeWhile (\<lambda>k. \<phi> k = S_OK) [0..<19]"
  have len: "k < length ?xs"
    using k by (simp add: first_failure_def)
  then have "?xs ! k = [0..<19] ! k"
    by (rule takeWhile_nth)
  moreover have "k < 19"
    using k first_failure_le [of \<phi>] by simp
  ultimately have "?xs ! k = k"
    by simp
  moreover have "?xs ! k \<in> set ?xs"
    using len by (rule nth_mem)
  ultimately have "k \<in> set ?xs"
    by simp
  then show "\<phi> k = S_OK"
    by (auto dest: set_takeWhileD)
qed

lemma first_failure_failed: "first_failure \<phi> < 19 \<Longrightarrow> \<phi> (first_failure \<phi>) \<noteq> S_OK"
proof -
  assume lt: "first_failure \<phi> < 19"
  let ?P = "\<lambda>k. \<phi> k = S_OK"
  have "length (takeWhile ?P [0..<19]) < length [0..<19]"
    using lt by (simp add: first_failure_def)
  then have "\<not> ?P ([0..<19] ! length (takeWhile ?P [0..<19]))"
    by (rule nth_length_takeWhile)
  then show ?thesis
    using lt by (simp add: first_failure_def)
qed

lemma first_failure_eqI:
  "n \<le> 19 \<Longrightarrow> (\<And>k. k < n \<Longrightarrow> \<phi> k = S_OK) \<Longrightarrow> (n < 19 \<Longrightarrow> \<phi> n \<noteq> S_OK) \<Longrightarrow> first_failure \<phi> = n"
proof -
  assume n: "n \<le> 19" and ok: "\<And>k. k < n \<Longrightarrow> \<phi> k = S_OK" and bad: "n < 19 \<Longrightarrow> \<phi> n \<noteq> S_OK"
  have "\<not> first_failure \<phi> < n"
  proof
    assume lt: "first_failure \<phi> < n"
    then have "first_failure \<phi> < 19" using n by simp
    then have "\<phi> (first_failure \<phi>) \<noteq> S_OK" by (rule first_failure_failed)
    with ok [OF lt] show False by simp
  qed
  moreover have "\<not> n < first_failure \<phi>"
  proof
    assume lt: "n < first_failure \<phi>"
    then have "\<phi> n = S_OK" by (rule first_failure_succeeded)
    moreover have "n < 19" using lt first_failure_le [of \<phi>] by simp
    ultimately show False using bad by simp
  qed
  ultimately show ?thesis by simp
qed

lemma upto_19_cases:
  assumes "n \<le> (19::nat)"
  obtains "n = 0" | "n = 1" | "n = 2" | "n = 3" | "n = 4" | "n = 5" | "n = 6" | "n = 7"
    | "n = 8" | "n = 9" | "n = 10" | "n = 11" | "n = 12" | "n = 13" | "n = 14" | "n = 15"
    | "n = 16" | "n = 17" | "n = 18" | "n = 19"
  using assms by atomize_elim presburger

lemma run_characterisation:
  "observe (NSudoCreateProcess cmd cwd (boot \<phi> cs ls ts)) =
   run_outcome (first_failure \<phi>) (\<phi> (first_failure \<phi>)) cs cmd cwd"
proof -
  let ?n = "first_failure \<phi>"
  have ok: "\<And>k. k < ?n \<Longrightarrow> \<phi> k = S_OK"
    by (rule first_failure_succeeded)
  have bad: "?n < 19 \<Longrightarrow> \<phi> ?n \<noteq> S_OK"
    by (rule first_failure_failed)
  from first_failure_le [of \<phi>] show ?thesis
  proof (cases rule: upto_19_cases)
    case 1
    show ?thesis
      unfolding \<open>?n = 0\<close>
      by (rule run_0) (use ok bad in \<open>simp_all add: \<open>?n = 0\<close>\<close>)
  next
    case 2
    show ?thesis
      unfolding \<open>?n = 1\<close>
      by (rule run_1) (use ok bad in \<open>simp_all add: \<open>?n = 1\<close>\<close>)
  next
    case 3
    show ?thesis
      unfolding \<open>?n = 2\<close>
      by (rule run_2) (use ok bad in \<open>simp_all add: \<open>?n = 2\<close>\<close>)
  next
    case 4
    show ?thesis
      unfolding \<open>?n = 3\<close>
      by (rule run_3) (use ok bad in \<open>simp_all add: \<open>?n = 3\<close>\<close>)
  next
    case 5
    show ?thesis
      unfolding \<open>?n = 4\<close>
      by (rule run_4) (use ok bad in \<open>simp_all add: \<open>?n = 4\<close>\<close>)
  next
    case 6
    show ?thesis
      unfolding \<open>?n = 5\<close>
      by (rule run_5) (use ok bad in \<open>simp_all add: \<open>?n = 5\<close>\<close>)
  next
    case 7
    show ?thesis
      unfolding \<open>?n = 6\<close>
      by (rule run_6) (use ok bad in \<open>simp_all add: \<open>?n = 6\<close>\<close>)
  next
    case 8
    show ?thesis
      unfolding \<open>?n = 7\<close>
      by (rule run_7) (use ok bad in \<open>simp_all add: \<open>?n = 7\<close>\<close>)
  next
    case 9
    show ?thesis
      unfolding \<open>?n = 8\<close>
      by (rule run_8) (use ok bad in \<open>simp_all add: \<open>?n = 8\<close>\<close>)
  next
    case 10
    show ?thesis
      unfolding \<open>?n = 9\<close>
      by (rule run_9) (use ok bad in \<open>simp_all add: \<open>?n = 9\<close>\<close>)
  next
    case 11
    show ?thesis
      unfolding \<open>?n = 10\<close>
      by (rule run_10) (use ok bad in \<open>simp_all add: \<open>?n = 10\<close>\<close>)
  next
    case 12
    show ?thesis
      unfolding \<open>?n = 11\<close>
      by (rule run_11) (use ok bad in \<open>simp_all add: \<open>?n = 11\<close>\<close>)
  next
    case 13
    show ?thesis
      unfolding \<open>?n = 12\<close>
      by (rule run_12) (use ok bad in \<open>simp_all add: \<open>?n = 12\<close>\<close>)
  next
    case 14
    show ?thesis
      unfolding \<open>?n = 13\<close>
      by (rule run_13) (use ok bad in \<open>simp_all add: \<open>?n = 13\<close>\<close>)
  next
    case 15
    show ?thesis
      unfolding \<open>?n = 14\<close>
      by (rule run_14) (use ok bad in \<open>simp_all add: \<open>?n = 14\<close>\<close>)
  next
    case 16
    show ?thesis
      unfolding \<open>?n = 15\<close>
      by (rule run_15) (use ok bad in \<open>simp_all add: \<open>?n = 15\<close>\<close>)
  next
    case 17
    show ?thesis
      unfolding \<open>?n = 16\<close>
      by (rule run_16) (use ok bad in \<open>simp_all add: \<open>?n = 16\<close>\<close>)
  next
    case 18
    show ?thesis
      unfolding \<open>?n = 17\<close>
      by (rule run_17) (use ok bad in \<open>simp_all add: \<open>?n = 17\<close>\<close>)
  next
    case 19
    show ?thesis
      unfolding \<open>?n = 18\<close>
      by (rule run_18) (use ok bad in \<open>simp_all add: \<open>?n = 18\<close>\<close>)
  next
    case 20
    show ?thesis
      unfolding \<open>?n = 19\<close>
      by (rule run_19) (use ok bad in \<open>simp_all add: \<open>?n = 19\<close>\<close>)
  qed
qed


lemma run_status:
  "fst (NSudoCreateProcess cmd cwd (boot \<phi> cs ls ts)) =
   (if first_failure \<phi> < 16 then \<phi> (first_failure \<phi>) else S_OK)"
  using run_characterisation [of cmd cwd \<phi> cs ls ts]
  by (simp add: observe_def run_outcome_def split: prod.splits)

lemma run_calls:
  "w_trace (snd (NSudoCreateProcess cmd cwd (boot \<phi> cs ls ts))) =
   run_trace (first_failure \<phi>) (\<phi> (first_failure \<phi>)) cs cmd cwd"
  using run_characterisation [of cmd cwd \<phi> cs ls ts]
  by (simp add: observe_def run_outcome_def split: prod.splits)

lemma run_handles:
  "w_handles (snd (NSudoCreateProcess cmd cwd (boot \<phi> cs ls ts))) =
   (if 6 \<le> first_failure \<phi> then [(4, TokenObj CALLER_TOKEN)] else [])"
  using run_characterisation [of cmd cwd \<phi> cs ls ts]
  by (simp add: observe_def run_outcome_def split: prod.splits)

lemma run_heap:
  "w_heap (snd (NSudoCreateProcess cmd cwd (boot \<phi> cs ls ts))) = []"
  using run_characterisation [of cmd cwd \<phi> cs ls ts]
  by (simp add: observe_def run_outcome_def split: prod.splits)

lemma run_procs:
  "w_procs (snd (NSudoCreateProcess cmd cwd (boot \<phi> cs ls ts))) =
   (if first_failure \<phi> = 19 then [(52, launched_process cs cmd cwd)] else [])"
  using run_characterisation [of cmd cwd \<phi> cs ls ts]
  by (simp add: observe_def run_outcome_def split: prod.splits)

lemma first_failure_only:
  "k < 19 \<Longrightarrow> r \<noteq> S_OK \<Longrightarrow> first_failure (\<lambda>i. if i = k then r else S_OK) = k"
  by (rule first_failure_eqI) simp_all

lemma first_failure_none: "first_failure (\<lambda>i. S_OK) = 19"
  by (rule first_failure_eqI) simp_all

section \<open>Claims about the status returned and the handles of a run\<close>

text \<open>
  C1 (what the code does at a failing process creation). The claim says that the status
  returned is zero exactly when every stage succeeded. Run on the command line
  \<open>nonexistent.exe\<close> with process creation (checked call 18) failing with
  \<open>0x80070002\<close>: no process is created, the failure is in the list of calls, and
  the function returns \<open>S_OK\<close>.
\<close>

theorem NSudoCreateProcess_returns_S_OK_when_process_creation_fails:
  "fst (NSudoCreateProcess ''nonexistent.exe'' None
          (boot (\<lambda>k. if k = 18 then 0x80070002 else S_OK) 1 0 0)) = S_OK \<and>
   w_procs (snd (NSudoCreateProcess ''nonexistent.exe'' None
          (boot (\<lambda>k. if k = 18 then 0x80070002 else S_OK) 1 0 0))) = [] \<and>
   filter (\<lambda>e. status e \<noteq> S_OK)
     (w_trace (snd (NSudoCreateProcess ''nonexistent.exe'' None
          (boot (\<lambda>k. if k = 18 then 0x80070002 else S_OK) 1 0 0)))) =
     [(CreateProcessAsUser 40 48 0x414 44 None, 0x80070002, [])]"
proof -
  let ?\<phi> = "\<lambda>k::nat. if k = 18 then 0x80070002 else S_OK"
  have n: "first_failure ?\<phi> = 18"
    by (rule first_failure_only) (simp_all add: S_OK_def)
  show ?thesis
    by (simp add: run_status run_procs run_calls n)
       (simp add: outcome_defs status_def constant_defs)
qed

text \<open>
  C2 (what the code does to the first handle). The claim says that every token handle
  opened before a failing stage is closed exactly once before the function returns,
  the handle of the caller's process token included. Run with the lsass token open
  (checked call 7) failing with \<open>0x80070005\<close>: the handles 4, 12 and 16 were handed
  out, 16 and 12 are closed, and handle 4, the one \<open>MileOpenCurrentProcessToken\<close>
  returned, is still open when the function returns, because
  \<open>MileOpenCurrentThreadToken\<close> has overwritten the variable that held it.
\<close>

theorem NSudoCreateProcess_leaves_process_token_handle_open:
  "opened_handles (w_trace (snd (NSudoCreateProcess ''cmd.exe'' None
          (boot (\<lambda>k. if k = 7 then 0x80070005 else S_OK) 1 0 0)))) = [4, 12, 16] \<and>
   closed_handles (w_trace (snd (NSudoCreateProcess ''cmd.exe'' None
          (boot (\<lambda>k. if k = 7 then 0x80070005 else S_OK) 1 0 0)))) = [16, 12] \<and>
   w_handles (snd (NSudoCreateProcess ''cmd.exe'' None
          (boot (\<lambda>k. if k = 7 then 0x80070005 else S_OK) 1 0 0))) = [(4, TokenObj CALLER_TOKEN)]"
proof -
  let ?\<phi> = "\<lambda>k::nat. if k = 7 then 0x80070005 else S_OK"
  have n: "first_failure ?\<phi> = 7"
    by (rule first_failure_only) (simp_all add: S_OK_def)
  show ?thesis
    by (simp add: run_handles run_calls n)
       (simp add: outcome_defs opened_handles_def closed_handles_def constant_defs)
qed

section \<open>Claims about the scope-exit handler\<close>

lemma calls_MileCloseHandle:
  "map fst (w_trace (MileCloseHandle h w)) = map fst (w_trace w) @ [CloseHandle h]"
  by (simp add: MileCloseHandle_def unchecked_call_def record_call_def split: option.splits)

lemma clear_thread_token:
  "snd (MileSetCurrentThreadToken nullptr w) =
   w\<lparr>w_thread := None, w_trace := w_trace w @ [(SetCurrentThreadToken nullptr, S_OK, [])]\<rparr>"
  by (simp add: MileSetCurrentThreadToken_def unchecked_call_def record_call_def)

lemma Handler_lambda_calls:
  "map fst (w_trace (Handler_lambda L w)) =
   map fst (w_trace w) @
   map CloseHandle (filter (\<lambda>h. h \<noteq> INVALID_HANDLE_VALUE) (handle_variables L)) @
   [SetCurrentThreadToken nullptr]"
  by (simp add: Handler_lambda_def statements_def handle_variables_def clear_thread_token
        calls_MileCloseHandle)

lemma Handler_lambda_thread:
  "w_thread (Handler_lambda L w) = None \<and>
   last (w_trace (Handler_lambda L w)) = (SetCurrentThreadToken nullptr, S_OK, [])"
  by (simp add: Handler_lambda_def statements_def clear_thread_token)

text \<open>
  C5. On every return path of \<open>NSudoCreateProcess\<close>, from any machine and whatever
  the calls of the pipeline answer, the last call made is the one that clears the
  thread token, and the calling thread has no impersonation token when the function
  returns.
\<close>

theorem thread_token_cleared_on_every_return:
  "w_thread (snd (NSudoCreateProcess cmd cwd w)) = None \<and>
   last (w_trace (snd (NSudoCreateProcess cmd cwd w))) = (SetCurrentThreadToken nullptr, S_OK, [])"
  by (simp add: NSudoCreateProcess_def ScopeExitEventHandler_ctor_def
        ScopeExitEventHandler_dtor_def Handler_lambda_thread split: prod.splits)

theorem thread_token_cleared_on_every_return_witness:
  "w_thread (snd (NSudoCreateProcess ''cmd.exe'' None
      (boot (\<lambda>k. if k = 10 then 0x80070005 else S_OK) 1 0 0))) = None \<and>
   last (w_trace (snd (NSudoCreateProcess ''cmd.exe'' None
      (boot (\<lambda>k. if k = 10 then 0x80070005 else S_OK) 1 0 0)))) =
     (SetCurrentThreadToken nullptr, S_OK, [])"
  by (rule thread_token_cleared_on_every_return)

text \<open>
  C3 (as stated, refuted). The claim says that the release actions run in reverse order
  of registration, the most recently acquired resource first. Run with the thread token
  open (checked call 5) failing: the handles 4 and 12 were handed out in this order,
  and the handler closes 4 first and 12 second.
\<close>

theorem Handler_release_order_counterexample:
  "opened_handles (w_trace (snd (NSudoCreateProcess ''cmd.exe'' None
          (boot (\<lambda>k. if k = 5 then 0x80070005 else S_OK) 1 0 0)))) = [4, 12] \<and>
   closed_handles (w_trace (snd (NSudoCreateProcess ''cmd.exe'' None
          (boot (\<lambda>k. if k = 5 then 0x80070005 else S_OK) 1 0 0)))) = [4, 12] \<and>
   closed_handles (w_trace (snd (NSudoCreateProcess ''cmd.exe'' None
          (boot (\<lambda>k. if k = 5 then 0x80070005 else S_OK) 1 0 0)))) \<noteq>
   rev (opened_handles (w_trace (snd (NSudoCreateProcess ''cmd.exe'' None
          (boot (\<lambda>k. if k = 5 then 0x80070005 else S_OK) 1 0 0)))))"
proof -
  let ?\<phi> = "\<lambda>k::nat. if k = 5 then 0x80070005 else S_OK"
  have n: "first_failure ?\<phi> = 5"
    by (rule first_failure_only) (simp_all add: S_OK_def)
  show ?thesis
    by (simp add: run_calls n)
       (simp add: outcome_defs opened_handles_def closed_handles_def constant_defs)
qed

lemma run_closes:
  "list_all (\<lambda>e. status e = S_OK) (filter (\<lambda>e. is_close (fst e)) (run_trace n r cs cmd cwd)) \<and>
   distinct (closed_handles (run_trace n r cs cmd cwd))"
  if "n \<le> 19"
  using that
  by (cases n rule: upto_19_cases)
     (simp_all add: outcome_defs closed_handles_def status_def constant_defs)

text \<open>
  C3 (amended). On every exit path the one handler registered at entry runs once, after
  the body of the function: it closes the handle held in each of the six handle
  variables that is not the invalid value, in the fixed order of the variables, and
  then clears the thread token. This holds from any machine. In a run started by
  \<open>boot\<close>, every close succeeds and no handle is closed twice.
\<close>

theorem Handler_closes_held_handles_in_fixed_order:
  "map fst (w_trace (snd (NSudoCreateProcess cmd cwd w))) =
     map fst (w_trace (snd (snd (NSudoCreateProcess_body cmd cwd w)))) @
     map CloseHandle
       (filter (\<lambda>h. h \<noteq> INVALID_HANDLE_VALUE)
          (handle_variables (fst (snd (NSudoCreateProcess_body cmd cwd w))))) @
     [SetCurrentThreadToken nullptr] \<and>
   list_all (\<lambda>e. status e = S_OK)
     (filter (\<lambda>e. is_close (fst e))
        (w_trace (snd (NSudoCreateProcess cmd cwd (boot \<phi> cs ls ts))))) \<and>
   distinct (closed_handles (w_trace (snd (NSudoCreateProcess cmd cwd (boot \<phi> cs ls ts)))))"
proof -
  have "map fst (w_trace (snd (NSudoCreateProcess cmd cwd w))) =
     map fst (w_trace (snd (snd (NSudoCreateProcess_body cmd cwd w)))) @
     map CloseHandle
       (filter (\<lambda>h. h \<noteq> INVALID_HANDLE_VALUE)
          (handle_variables (fst (snd (NSudoCreateProcess_body cmd cwd w))))) @
     [SetCurrentThreadToken nullptr]"
    by (simp add: NSudoCreateProcess_def ScopeExitEventHandler_ctor_def
          ScopeExitEventHandler_dtor_def Handler_lambda_calls split: prod.splits)
  moreover note run_closes [OF first_failure_le, of \<phi> "\<phi> (first_failure \<phi>)" cs cmd cwd]
  ultimately show ?thesis
    by (simp add: run_calls)
qed

theorem Handler_closes_held_handles_in_fixed_order_witness:
  "map fst (w_trace (snd (NSudoCreateProcess ''cmd.exe'' None
       (boot (\<lambda>k. if k = 5 then 0x80070005 else S_OK) 1 0 0)))) =
     [OpenCurrentProcessToken, DuplicateToken 4 SecurityImpersonation TokenImpersonation,
      GetPrivilegeValue SE_DEBUG_NAME,
      AdjustTokenPrivilegesSimple 12 [\<lparr>Luid = 20, Attributes = SE_PRIVILEGE_ENABLED\<rparr>],
      SetCurrentThreadToken 12, OpenCurrentThreadToken] @
     map CloseHandle [4, 12] @ [SetCurrentThreadToken nullptr] \<and>
   distinct (closed_handles (w_trace (snd (NSudoCreateProcess ''cmd.exe'' None
       (boot (\<lambda>k. if k = 5 then 0x80070005 else S_OK) 1 0 0)))))"
proof -
  let ?\<phi> = "\<lambda>k::nat. if k = 5 then 0x80070005 else S_OK"
  have n: "first_failure ?\<phi> = 5"
    by (rule first_failure_only) (simp_all add: S_OK_def)
  have "map fst (w_trace (snd (NSudoCreateProcess ''cmd.exe'' None (boot ?\<phi> 1 0 0)))) =
     [OpenCurrentProcessToken, DuplicateToken 4 SecurityImpersonation TokenImpersonation,
      GetPrivilegeValue SE_DEBUG_NAME,
      AdjustTokenPrivilegesSimple 12 [\<lparr>Luid = 20, Attributes = SE_PRIVILEGE_ENABLED\<rparr>],
      SetCurrentThreadToken 12, OpenCurrentThreadToken] @
     map CloseHandle [4, 12] @ [SetCurrentThreadToken nullptr]"
    by (simp add: run_calls n) (simp add: outcome_defs constant_defs)
  with Handler_closes_held_handles_in_fixed_order [of "''cmd.exe''" None "boot ?\<phi> 1 0 0" ?\<phi> 1 0 0]
  show ?thesis
    by simp
qed

section \<open>Claims about the order of the calls\<close>

lemma run_session:
  "session_writes (run_trace n r cs cmd cwd) = (if 13 \<le> n then [(40, cs)] else []) \<and>
   not_before (\<lambda>a. a = GetTokenInformation 16 TokenSessionId) (\<lambda>a. a = SetCurrentThreadToken 28)
     (run_trace n r cs cmd cwd)"
  if "n \<le> 19"
  using that
  by (cases n rule: upto_19_cases)
     (simp_all add: outcome_defs session_writes_def constant_defs)

text \<open>
  C4. In every run started by \<open>boot\<close>, whatever the sessions of the lsass token and of
  the service token are: the only session ever written onto a token is the session of
  the caller's token, written onto the primary token (handle 40) once the first
  thirteen calls have succeeded; it is read (\<open>GetTokenInformation\<close> on the handle of
  the thread token, which is the duplicate of the caller's token) before the thread
  token is replaced by the lsass-derived one; and the process launched, when there is
  one, runs in the caller's session.
\<close>

theorem session_is_the_callers:
  "session_writes (w_trace (snd (NSudoCreateProcess cmd cwd (boot \<phi> cs ls ts)))) =
     (if 13 \<le> first_failure \<phi> then [(40, cs)] else []) \<and>
   not_before (\<lambda>a. a = GetTokenInformation 16 TokenSessionId) (\<lambda>a. a = SetCurrentThreadToken 28)
     (w_trace (snd (NSudoCreateProcess cmd cwd (boot \<phi> cs ls ts)))) \<and>
   map (\<lambda>p. p_session (snd p)) (w_procs (snd (NSudoCreateProcess cmd cwd (boot \<phi> cs ls ts)))) =
     (if first_failure \<phi> = 19 then [cs] else [])"
  using run_session [OF first_failure_le, of \<phi> "\<phi> (first_failure \<phi>)" cs cmd cwd]
  by (simp add: run_calls run_procs launched_process_def)

theorem session_is_the_callers_witness:
  "session_writes (w_trace (snd (NSudoCreateProcess ''cmd.exe'' None (boot (\<lambda>k. S_OK) 1 0 0)))) =
     [(40, 1)] \<and>
   map (\<lambda>p. p_session (snd p))
     (w_procs (snd (NSudoCreateProcess ''cmd.exe'' None (boot (\<lambda>k. S_OK) 1 0 0)))) = [1]"
  using session_is_the_callers [of "''cmd.exe''" None "\<lambda>k. S_OK" 1 0 0]
  by (simp add: first_failure_none)

lemma run_launch:
  "filter is_priority_or_resume (map fst (run_trace n r cs cmd cwd)) =
     (if n = 19 then [SetPriorityClass 56 ABOVE_NORMAL_PRIORITY_CLASS, ResumeThread 60] else []) \<and>
   not_before is_set_above_normal is_resume (run_trace n r cs cmd cwd)"
  if "n \<le> 19"
  using that
  by (cases n rule: upto_19_cases)
     (simp_all add: outcome_defs constant_defs)

text \<open>
  C6. In every run started by \<open>boot\<close>: the calls that set the priority or resume a
  thread are, when all nineteen checked calls succeed, exactly
  \<open>SetPriorityClass\<close> to the above-normal class on the new process followed by
  \<open>ResumeThread\<close> on its primary thread, and none otherwise; no thread is resumed
  before a priority has been set to above normal; and the process launched ends with
  the above-normal class and is no longer suspended.
\<close>

theorem priority_set_before_resume:
  "filter is_priority_or_resume
     (map fst (w_trace (snd (NSudoCreateProcess cmd cwd (boot \<phi> cs ls ts))))) =
     (if first_failure \<phi> = 19
      then [SetPriorityClass 56 ABOVE_NORMAL_PRIORITY_CLASS, ResumeThread 60] else []) \<and>
   not_before is_set_above_normal is_resume
     (w_trace (snd (NSudoCreateProcess cmd cwd (boot \<phi> cs ls ts)))) \<and>
   map (\<lambda>p. (p_priority (snd p), p_suspended (snd p)))
     (w_procs (snd (NSudoCreateProcess cmd cwd (boot \<phi> cs ls ts)))) =
     (if first_failure \<phi> = 19 then [(ABOVE_NORMAL_PRIORITY_CLASS, False)] else [])"
  using run_launch [OF first_failure_le, of \<phi> "\<phi> (first_failure \<phi>)" cs cmd cwd]
  by (simp add: run_calls run_procs launched_process_def)

theorem priority_set_before_resume_witness:
  "filter is_priority_or_resume
     (map fst (w_trace (snd (NSudoCreateProcess ''cmd.exe'' None (boot (\<lambda>k. S_OK) 1 0 0))))) =
     [SetPriorityClass 56 ABOVE_NORMAL_PRIORITY_CLASS, ResumeThread 60] \<and>
   not_before is_set_above_normal is_resume
     (w_trace (snd (NSudoCreateProcess ''cmd.exe'' None (boot (\<lambda>k. S_OK) 1 0 0))))"
  using priority_set_before_resume [of "''cmd.exe''" None "\<lambda>k. S_OK" 1 0 0]
  by (simp add: first_failure_none)

lemma run_memory:
  "filter (\<lambda>e. is_memory_call (fst e)) (run_trace n r cs cmd cwd) =
     (if n < 16 then []
      else if n = 16 then [(CreateEnvironmentBlock 40, r, [])]
      else if n = 17 then
        [(CreateEnvironmentBlock 40, S_OK, [44]),
         (ExpandEnvironmentStringsWithMemory cmd, r, []),
         (DestroyEnvironmentBlock 44, S_OK, [])]
      else
        [(CreateEnvironmentBlock 40, S_OK, [44]),
         (ExpandEnvironmentStringsWithMemory cmd, S_OK, [48]),
         (FreeMemory 48, S_OK, []),
         (DestroyEnvironmentBlock 44, S_OK, [])])"
  if "n \<le> 19"
  using that
  by (cases n rule: upto_19_cases)
     (simp_all add: outcome_defs constant_defs)

text \<open>
  C7. In every run started by \<open>boot\<close> no memory block is live when the function
  returns, and the calls that allocate or free memory are: none when a token stage
  fails; the failed creation of the environment block alone when that fails (the
  expansion is not attempted); creation, the failed expansion, and the destruction of
  the environment block when the expansion fails; and otherwise, whether process
  creation succeeds or fails, creation, expansion, the release of the expanded string
  and the destruction of the environment block, each block freed once.
\<close>

theorem memory_freed_on_every_path:
  "w_heap (snd (NSudoCreateProcess cmd cwd (boot \<phi> cs ls ts))) = [] \<and>
   filter (\<lambda>e. is_memory_call (fst e))
     (w_trace (snd (NSudoCreateProcess cmd cwd (boot \<phi> cs ls ts)))) =
     (if first_failure \<phi> < 16 then []
      else if first_failure \<phi> = 16 then [(CreateEnvironmentBlock 40, \<phi> 16, [])]
      else if first_failure \<phi> = 17 then
        [(CreateEnvironmentBlock 40, S_OK, [44]),
         (ExpandEnvironmentStringsWithMemory cmd, \<phi> 17, []),
         (DestroyEnvironmentBlock 44, S_OK, [])]
      else
        [(CreateEnvironmentBlock 40, S_OK, [44]),
         (ExpandEnvironmentStringsWithMemory cmd, S_OK, [48]),
         (FreeMemory 48, S_OK, []),
         (DestroyEnvironmentBlock 44, S_OK, [])])"
  using run_memory [OF first_failure_le, of \<phi> "\<phi> (first_failure \<phi>)" cs cmd cwd]
  by (simp add: run_calls run_heap)

theorem memory_freed_on_every_path_witness:
  "w_heap (snd (NSudoCreateProcess ''cmd.exe'' None
      (boot (\<lambda>k. if k = 17 then 0x8007000E else S_OK) 1 0 0))) = [] \<and>
   filter (\<lambda>e. is_memory_call (fst e))
     (w_trace (snd (NSudoCreateProcess ''cmd.exe'' None
        (boot (\<lambda>k. if k = 17 then 0x8007000E else S_OK) 1 0 0)))) =
     [(CreateEnvironmentBlock 40, S_OK, [44]),
      (ExpandEnvironmentStringsWithMemory ''cmd.exe'', 0x8007000E, []),
      (DestroyEnvironmentBlock 44, S_OK, [])]"
proof -
  let ?\<phi> = "\<lambda>k::nat. if k = 17 then 0x8007000E else S_OK"
  have n: "first_failure ?\<phi> = 17"
    by (rule first_failure_only) (simp_all add: S_OK_def)
  show ?thesis
    using memory_freed_on_every_path [of "''cmd.exe''" None ?\<phi> 1 0 0]
    by (simp add: n)
qed

lemma run_stages:
  "short_circuits (run_trace n r cs cmd cwd) \<and>
   map fst (filter (\<lambda>e. is_stage (fst e)) (run_trace n r cs cmd cwd)) =
     take (Suc n) (map fst (stage_calls cs cmd cwd)) \<and>
   list_all (\<lambda>e. status e = S_OK)
     (butlast (filter (\<lambda>e. is_stage (fst e)) (run_trace n r cs cmd cwd))) \<and>
   filter is_launch (map fst (run_trace n r cs cmd cwd)) =
     (if n = 19
      then [SetPriorityClass 56 ABOVE_NORMAL_PRIORITY_CLASS, ResumeThread 60,
            WaitForSingleObject 56 0]
      else [])"
  if "n \<le> 19"
  using that
  by (cases n rule: upto_19_cases)
     (simp_all add: outcome_defs is_stage_def status_def constant_defs)

lemma first_failure_19: "first_failure \<phi> = 19 \<Longrightarrow> k < 19 \<Longrightarrow> \<phi> k = S_OK"
  using first_failure_succeeded [of k \<phi>] by simp

text \<open>
  C8. In every run started by \<open>boot\<close>: every call that reports a failure is followed
  by cleanup calls only; the checked calls made are the first ones of the fixed
  sequence of nineteen, up to and including the first that fails, and all of them but
  the last reported success; and priority, resume and wait are called only when all
  nineteen succeeded, so never when process creation (call 18) has failed.
\<close>

theorem stages_short_circuit:
  "short_circuits (w_trace (snd (NSudoCreateProcess cmd cwd (boot \<phi> cs ls ts)))) \<and>
   map fst (filter (\<lambda>e. is_stage (fst e))
              (w_trace (snd (NSudoCreateProcess cmd cwd (boot \<phi> cs ls ts))))) =
     take (Suc (first_failure \<phi>)) (map fst (stage_calls cs cmd cwd)) \<and>
   list_all (\<lambda>e. status e = S_OK)
     (butlast (filter (\<lambda>e. is_stage (fst e))
                 (w_trace (snd (NSudoCreateProcess cmd cwd (boot \<phi> cs ls ts)))))) \<and>
   filter is_launch (map fst (w_trace (snd (NSudoCreateProcess cmd cwd (boot \<phi> cs ls ts))))) =
     (if first_failure \<phi> = 19
      then [SetPriorityClass 56 ABOVE_NORMAL_PRIORITY_CLASS, ResumeThread 60,
            WaitForSingleObject 56 0]
      else []) \<and>
   (if \<phi> 18 = S_OK then True
    else filter is_launch
           (map fst (w_trace (snd (NSudoCreateProcess cmd cwd (boot \<phi> cs ls ts))))) = [])"
proof -
  have "\<phi> 18 \<noteq> S_OK \<Longrightarrow> first_failure \<phi> \<noteq> 19"
    using first_failure_19 [of \<phi> 18] by auto
  with run_stages [OF first_failure_le, of \<phi> "\<phi> (first_failure \<phi>)" cs cmd cwd]
  show ?thesis
    by (simp add: run_calls)
qed

theorem stages_short_circuit_witness:
  "short_circuits (w_trace (snd (NSudoCreateProcess ''cmd.exe'' None
      (boot (\<lambda>k. if k = 18 then 0x80070002 else S_OK) 1 0 0)))) \<and>
   map fst (filter (\<lambda>e. is_stage (fst e))
      (w_trace (snd (NSudoCreateProcess ''cmd.exe'' None
         (boot (\<lambda>k. if k = 18 then 0x80070002 else S_OK) 1 0 0))))) =
     map fst (stage_calls 1 ''cmd.exe'' None) \<and>
   filter is_launch (map fst (w_trace (snd (NSudoCreateProcess ''cmd.exe'' None
      (boot (\<lambda>k. if k = 18 then 0x80070002 else S_OK) 1 0 0))))) = []"
proof -
  let ?\<phi> = "\<lambda>k::nat. if k = 18 then 0x80070002 else S_OK"
  have n: "first_failure ?\<phi> = 18"
    by (rule first_failure_only) (simp_all add: S_OK_def)
  have "take 19 (map fst (stage_calls 1 ''cmd.exe'' None)) = map fst (stage_calls 1 ''cmd.exe'' None)"
    by (simp add: stage_calls_def)
  then show ?thesis
    using stages_short_circuit [of "''cmd.exe''" None ?\<phi> 1 0 0]
    by (simp add: n S_OK_def)
qed

section \<open>Claims about NSudoMain\<close>

lemma Initialize_strips_file_name:
  "Initialize h (''C:'' @ [CHR 0x5C] @ ''NSudo'' @ [CHR 0x5C] @ ''NSudo.exe'')
     CNSudoResourceManagement_ctor =
   Some \<lparr>m_IsInitialized = True, m_Instance = h,
         m_ExePath = ''C:'' @ [CHR 0x5C] @ ''NSudo'' @ [CHR 0x5C] @ ''NSudo.exe'',
         m_AppPath = ''C:'' @ [CHR 0x5C] @ ''NSudo'',
         m_StringTranslations = [], m_ShortCutList = []\<rparr>"
  by (simp add: Initialize_def CNSudoResourceManagement_ctor_def wcsrchr_def wcslen_def Let_def)

lemma Initialize_without_backslash:
  "\<not> m_IsInitialized g \<Longrightarrow> wcsrchr path (CHR 0x5C) = None \<Longrightarrow> Initialize h path g = None"
  by (simp add: Initialize_def)

text \<open>
  Where \<open>Initialize\<close> returns, \<open>NSudoMain\<close> returns 0: with an empty unresolved command
  line the machine is left as \<open>CoInitializeEx\<close> left it, and otherwise it is the machine
  the pipeline leaves, the status the pipeline returned being dropped.
\<close>

lemma NSudoMain_returns_zero_after_Initialize:
  "Initialize h path g = Some g' \<Longrightarrow>
   NSudoMain M2SpiltCommandLineEx GetCommandLineW h path g w =
     Some (0, g',
       if snd (M2SpiltCommandLineEx GetCommandLineW) = []
       then unchecked_call CoInitializeEx (\<lambda>w. (S_OK, w)) w
       else snd (NSudoCreateProcess (snd (M2SpiltCommandLineEx GetCommandLineW))
                   (Some (m_AppPath g'))
                   (unchecked_call CoInitializeEx (\<lambda>w. (S_OK, w)) w)))"
  by (simp add: NSudoMain_def Let_def split: prod.splits)

text \<open>
  C9 (what the code does when the module path cannot be found). The claim says that
  every invocation of \<open>NSudoMain\<close> returns the exit code 0. Run in a process where
  \<open>M2GetCurrentProcessModulePath\<close> returns the empty string, its documented value on
  failure: \<open>Initialize\<close> writes through the null pointer that \<open>wcsrchr\<close> returns, and
  \<open>NSudoMain\<close> does not return an exit code.
\<close>

theorem NSudoMain_does_not_return_without_module_path:
  "NSudoMain (\<lambda>s. (''NSudo'', ''cmd.exe'')) ''NSudo cmd.exe'' 0 [] CNSudoResourceManagement_ctor
     (boot (\<lambda>k. S_OK) 1 0 0) = None \<and>
   NSudoMain (\<lambda>s. (''NSudo'', [])) ''NSudo'' 0 [] CNSudoResourceManagement_ctor
     (boot (\<lambda>k. S_OK) 1 0 0) = None"
  by (simp add: NSudoMain_def Initialize_def CNSudoResourceManagement_ctor_def wcsrchr_def)

section \<open>Claims about CObject\<close>

lemma CObject_Close_twice:
  "CObject_Close D (fst (CObject_Close D this s)) (snd (CObject_Close D this s)) =
   CObject_Close D this s"
  by (simp add: CObject_Close_def IsInvalid_def)

lemma CObject_Close_log:
  "CObject_Close (LogDefiner invalid) this released =
     (if m_Object this = invalid then (this, released)
      else (this\<lparr>m_Object := invalid\<rparr>, released @ [m_Object this]))"
  by (simp add: CObject_Close_def IsInvalid_def LogDefiner_def)

lemma LogDefiner_invalid: "GetInvalidValue (LogDefiner invalid) = invalid"
  by (simp add: LogDefiner_def)

lemma lifetime_releases_once:
  "distinct released \<Longrightarrow> invalid \<notin> set released \<Longrightarrow>
   distinct (filter (\<lambda>v. v \<noteq> invalid) (m_Object this # assigned cs)) \<Longrightarrow>
   set (filter (\<lambda>v. v \<noteq> invalid) (m_Object this # assigned cs)) \<inter> set released = {} \<Longrightarrow>
   distinct (lifetime (LogDefiner invalid) cs (this, released)) \<and>
   invalid \<notin> set (lifetime (LogDefiner invalid) cs (this, released))"
proof (induction cs arbitrary: this released)
  case Nil
  then show ?case
    by (auto simp: CObject_dtor_def CObject_Close_log)
next
  case (Cons c cs)
  obtain this' released' where
    step: "call_member (LogDefiner invalid) c (this, released) = (this', released')"
    by (cases "call_member (LogDefiner invalid) c (this, released)")
  have "distinct released' \<and> invalid \<notin> set released' \<and>
        distinct (filter (\<lambda>v. v \<noteq> invalid) (m_Object this' # assigned cs)) \<and>
        set (filter (\<lambda>v. v \<noteq> invalid) (m_Object this' # assigned cs)) \<inter> set released' = {}"
    using Cons.prems step
    by (cases c)
       (auto simp: CObject_Close_log CObject_assign_def Detach_def LogDefiner_invalid
             split: if_splits)
  then have "distinct (lifetime (LogDefiner invalid) cs (this', released')) \<and>
             invalid \<notin> set (lifetime (LogDefiner invalid) cs (this', released'))"
    using Cons.IH [of released' this'] by simp
  then show ?case
    using step by simp
qed

text \<open>
  C10. For any definer: after \<open>Close\<close> the object is invalid; a second \<open>Close\<close> changes
  neither the object nor the state, so it releases nothing; and assigning the value the
  object already holds returns it and changes nothing. With a release function that
  notes what it releases: over any sequence of \<open>Close\<close>, assignment and \<open>Detach\<close>
  followed by the destructor, if the values the object comes to own (the initial one and
  the assigned ones, the invalid value apart) are distinct, then no value is released
  twice, and the invalid value is never released.
\<close>

theorem CObject_releases_at_most_once:
  "IsInvalid D (fst (CObject_Close D this s)) \<and>
   CObject_Close D (fst (CObject_Close D this s)) (snd (CObject_Close D this s)) =
     CObject_Close D this s \<and>
   CObject_assign D this (m_Object this) s = (m_Object this, this, s) \<and>
   (if distinct (filter (\<lambda>v. v \<noteq> invalid) (m_Object that # assigned cs))
    then distinct (lifetime (LogDefiner invalid) cs (that, [])) \<and>
         invalid \<notin> set (lifetime (LogDefiner invalid) cs (that, []))
    else True)"
  using lifetime_releases_once [of "[]" invalid that cs]
  by (simp add: CObject_Close_twice CObject_assign_def)
     (simp add: CObject_Close_def IsInvalid_def)

theorem CObject_releases_at_most_once_witness:
  "distinct (filter (\<lambda>v. v \<noteq> INVALID_HANDLE_VALUE)
     (m_Object (CObject_ctor (4::HANDLE)) #
      assigned [CallAssign 8, CallClose, CallClose, CallAssign 12, CallDetach, CallAssign 16])) \<and>
   lifetime (LogDefiner INVALID_HANDLE_VALUE)
     [CallAssign 8, CallClose, CallClose, CallAssign 12, CallDetach, CallAssign 16]
     (CObject_ctor (4::HANDLE), []) = [4, 8, 16] \<and>
   distinct (lifetime (LogDefiner INVALID_HANDLE_VALUE)
     [CallAssign 8, CallClose, CallClose, CallAssign 12, CallDetach, CallAssign 16]
     (CObject_ctor (4::HANDLE), [])) \<and>
   closed_handles (w_trace (snd
     (CObject_Close CHandleDefiner
        (fst (CObject_Close CHandleDefiner (CObject_ctor 4)
                (snd (open_handle (TokenObj CALLER_TOKEN) (boot (\<lambda>k. S_OK) 1 0 0)))))
        (snd (CObject_Close CHandleDefiner (CObject_ctor 4)
                (snd (open_handle (TokenObj CALLER_TOKEN) (boot (\<lambda>k. S_OK) 1 0 0)))))))) = [4]"
proof -
  let ?ops = "[CallAssign 8, CallClose, CallClose, CallAssign 12, CallDetach, CallAssign (16::HANDLE)]"
  let ?w = "snd (open_handle (TokenObj CALLER_TOKEN) (boot (\<lambda>k. S_OK) 1 0 0))"
  have d: "distinct (filter (\<lambda>v. v \<noteq> INVALID_HANDLE_VALUE)
     (m_Object (CObject_ctor (4::HANDLE)) # assigned ?ops))"
    by (simp add: CObject_ctor_def INVALID_HANDLE_VALUE_def)
  have l: "lifetime (LogDefiner INVALID_HANDLE_VALUE) ?ops (CObject_ctor (4::HANDLE), []) = [4, 8, 16]"
    by (simp add: CObject_ctor_def CObject_assign_def CObject_Close_log CObject_dtor_def
          Detach_def LogDefiner_invalid INVALID_HANDLE_VALUE_def)
  have c: "closed_handles (w_trace (snd (CObject_Close CHandleDefiner (CObject_ctor 4) ?w))) = [4]"
    by (simp add: CObject_Close_def IsInvalid_def CHandleDefiner_def CObject_ctor_def
          MileCloseHandle_def boot_def machine_evals closed_handles_def constant_defs)
  from d l
    CObject_releases_at_most_once [of "LogDefiner INVALID_HANDLE_VALUE" "CObject_ctor 4" "[]"
      INVALID_HANDLE_VALUE "CObject_ctor 4" ?ops]
  have "distinct (lifetime (LogDefiner INVALID_HANDLE_VALUE) ?ops (CObject_ctor (4::HANDLE), []))"
    by simp
  moreover from c
    CObject_releases_at_most_once [of CHandleDefiner "CObject_ctor 4" ?w
      INVALID_HANDLE_VALUE "CObject_ctor 4" "[]"]
  have "closed_handles (w_trace (snd
     (CObject_Close CHandleDefiner (fst (CObject_Close CHandleDefiner (CObject_ctor 4) ?w))
        (snd (CObject_Close CHandleDefiner (CObject_ctor 4) ?w))))) = [4]"
    by simp
  ultimately show ?thesis
    using d l by simp
qed

end
